theory Spec2Isabelle
  imports Main "HOL-Library.Word" "HOL-Library.Multiset"
begin

unbundle bit_operations_syntax

section \<open>Bytes, big-endian integers and readers\<close>

text \<open>
  Go's \<open>byte\<close>, \<open>uint16\<close> and \<open>uint32\<close> are words; \<open>[]byte\<close> and \<open>string\<close> are byte
  lists (a Go string is a byte sequence and may hold any byte, also 0; a nil slice
  and an empty one are the same list).  A
  \<open>bytes.Reader\<close> or \<open>bytes.Buffer\<close> is the list of bytes not yet consumed; a read
  returns the value with the rest, and \<open>None\<close> where Go returns \<open>io.EOF\<close> or
  \<open>io.ErrUnexpectedEOF\<close>.
\<close>

type_synonym byte = "8 word"
type_synonym u16 = "16 word"
type_synonym u32 = "32 word"
type_synonym bytes = "byte list"

definition bytes_of :: "string \<Rightarrow> bytes" where
  "bytes_of s = map of_char s"

definition be16 :: "u16 \<Rightarrow> bytes" where
  "be16 w = [ucast (drop_bit 8 w), ucast w]"

definition be32 :: "u32 \<Rightarrow> bytes" where
  "be32 w = [ucast (drop_bit 24 w), ucast (drop_bit 16 w), ucast (drop_bit 8 w), ucast w]"

definition u16_of :: "byte \<Rightarrow> byte \<Rightarrow> u16" where
  "u16_of a b = push_bit 8 (ucast a) OR ucast b"

definition u32_of :: "byte \<Rightarrow> byte \<Rightarrow> byte \<Rightarrow> byte \<Rightarrow> u32" where
  "u32_of a b c d =
     push_bit 24 (ucast a) OR push_bit 16 (ucast b) OR push_bit 8 (ucast c) OR ucast d"

fun read_u8 :: "bytes \<Rightarrow> (byte \<times> bytes) option" where
  "read_u8 [] = None"
| "read_u8 (a # r) = Some (a, r)"

fun read_u16 :: "bytes \<Rightarrow> (u16 \<times> bytes) option" where
  "read_u16 (a # b # r) = Some (u16_of a b, r)"
| "read_u16 _ = None"

fun read_u32 :: "bytes \<Rightarrow> (u32 \<times> bytes) option" where
  "read_u32 (a # b # c # d # r) = Some (u32_of a b c d, r)"
| "read_u32 _ = None"

text \<open>
  \<open>Reader.Read(arr[:])\<close> on a zeroed array of \<open>n > 0\<close> bytes: \<open>io.EOF\<close> when nothing is
  left, otherwise it copies what is there (at most \<open>n\<close> bytes) and succeeds, the
  array keeping zeros behind a short read.
\<close>

definition read_array :: "nat \<Rightarrow> bytes \<Rightarrow> (bytes \<times> bytes) option" where
  "read_array n buf =
     (if buf = [] then None
      else Some (take n buf @ replicate (n - length buf) 0, drop n buf))"

text \<open>\<open>copy(dst, src)\<close>: the first \<open>min (len dst) (len src)\<close> bytes of \<open>dst\<close> are overwritten.\<close>

definition copy_into :: "bytes \<Rightarrow> bytes \<Rightarrow> bytes" where
  "copy_into dst src = take (length dst) src @ drop (length src) dst"

section \<open>Packet codec (pkg/protocol/packet.go)\<close>

definition MaxPacketSize :: nat where
  "MaxPacketSize = 1024"

definition PacketTypeSYN :: byte where "PacketTypeSYN = 0x00"
definition PacketTypeMSG :: byte where "PacketTypeMSG = 0x01"
definition PacketTypeFIN :: byte where "PacketTypeFIN = 0x02"
definition PacketTypeENC :: byte where "PacketTypeENC = 0x03"
definition PacketTypePING :: byte where "PacketTypePING = 0xFF"

definition EncSubtypeInit :: u16 where "EncSubtypeInit = 0x00"
definition EncSubtypeAuth :: u16 where "EncSubtypeAuth = 0x01"

definition OptName :: u16 where "OptName = 0x0001"

record SYNPacket =
  syn_Seq :: u16
  syn_Options :: u16
  syn_Name :: bytes

record MSGPacket =
  msg_Seq :: u16
  msg_Ack :: u16
  msg_Data :: bytes

record FINPacket =
  fin_Reason :: bytes

record PINGPacket =
  ping_Data :: bytes

text \<open>The two arrays of \<open>ENCPacket\<close> are lists; Go's types fix their lengths at 64 and 32.\<close>

record ENCPacket =
  enc_Subtype :: u16
  enc_Flags :: u16
  enc_PublicKey :: bytes
  enc_Authenticator :: bytes

text \<open>A body pointer is an option: \<open>None\<close> is Go's \<open>nil\<close>.\<close>

record Packet =
  PacketID :: u16
  PacketType :: byte
  SessionID :: u16
  SYN :: "SYNPacket option"
  MSG :: "MSGPacket option"
  FIN :: "FINPacket option"
  PING :: "PINGPacket option"
  ENC :: "ENCPacket option"

datatype error =
  ErrPacketTooShort
  | ErrPacketTooLong
  | ErrEOF
  | ErrUnknownMessageType byte
  | ErrBodyNil
  | ErrOverflow
  | ErrUnknownCommand u16
  | ErrKeyGeneration
  | ErrInvalidPublicKey
  | ErrECDHFailed
  | ErrDataTooShort
  | ErrNoAnswers
  | ErrEmptyAfterDomain
  | ErrHex
  | ErrRecordTooShort
  | ErrLengthMismatch
  | ErrUnknownDNSType u16
  | ErrNilDereference
  | ErrIndexOutOfRange
  | ErrMutexHeld
  | ErrCallbackBlocked

text \<open>\<open>readNTString\<close> of packet.go: an error when the input ends before the zero byte.\<close>

fun readNTString :: "bytes \<Rightarrow> (bytes \<times> bytes) option" where
  "readNTString [] = None"
| "readNTString (b # r) =
     (if b = 0 then Some ([], r)
      else (case readNTString r of None \<Rightarrow> None | Some (s, r') \<Rightarrow> Some (b # s, r')))"

definition writeNTString :: "bytes \<Rightarrow> bytes" where
  "writeNTString s = s @ [0]"

definition zero_ENC :: ENCPacket where
  "zero_ENC = \<lparr>enc_Subtype = 0, enc_Flags = 0,
               enc_PublicKey = replicate 64 0, enc_Authenticator = replicate 32 0\<rparr>"

definition zero_Packet :: Packet where
  "zero_Packet = \<lparr>PacketID = 0, PacketType = 0, SessionID = 0,
                  SYN = None, MSG = None, FIN = None, PING = None, ENC = None\<rparr>"

definition parse_SYN :: "Packet \<Rightarrow> bytes \<Rightarrow> error + Packet" where
  "parse_SYN p buf =
     (case read_u16 buf of None \<Rightarrow> Inl ErrEOF | Some (seq, b1) \<Rightarrow>
      (case read_u16 b1 of None \<Rightarrow> Inl ErrEOF | Some (opts, b2) \<Rightarrow>
       (if opts AND OptName \<noteq> 0 then
          (case readNTString b2 of None \<Rightarrow> Inl ErrEOF
           | Some (name, b3) \<Rightarrow>
               Inr (p\<lparr>SYN := Some \<lparr>syn_Seq = seq, syn_Options = opts, syn_Name = name\<rparr>\<rparr>))
        else Inr (p\<lparr>SYN := Some \<lparr>syn_Seq = seq, syn_Options = opts, syn_Name = []\<rparr>\<rparr>))))"

definition parse_MSG :: "Packet \<Rightarrow> bytes \<Rightarrow> error + Packet" where
  "parse_MSG p buf =
     (case read_u16 buf of None \<Rightarrow> Inl ErrEOF | Some (seq, b1) \<Rightarrow>
      (case read_u16 b1 of None \<Rightarrow> Inl ErrEOF | Some (ack, b2) \<Rightarrow>
       Inr (p\<lparr>MSG := Some \<lparr>msg_Seq = seq, msg_Ack = ack, msg_Data = b2\<rparr>\<rparr>)))"

definition parse_FIN :: "Packet \<Rightarrow> bytes \<Rightarrow> error + Packet" where
  "parse_FIN p buf =
     (case readNTString buf of None \<Rightarrow> Inl ErrEOF
      | Some (reason, b1) \<Rightarrow> Inr (p\<lparr>FIN := Some \<lparr>fin_Reason = reason\<rparr>\<rparr>))"

definition parse_PING :: "Packet \<Rightarrow> bytes \<Rightarrow> error + Packet" where
  "parse_PING p buf =
     (case readNTString buf of None \<Rightarrow> Inl ErrEOF
      | Some (d, b1) \<Rightarrow> Inr (p\<lparr>PING := Some \<lparr>ping_Data = d\<rparr>\<rparr>))"

definition parse_ENC :: "Packet \<Rightarrow> bytes \<Rightarrow> error + Packet" where
  "parse_ENC p buf =
     (case read_u16 buf of None \<Rightarrow> Inl ErrEOF | Some (subtype, b1) \<Rightarrow>
      (case read_u16 b1 of None \<Rightarrow> Inl ErrEOF | Some (flags, b2) \<Rightarrow>
       (let enc = zero_ENC\<lparr>enc_Subtype := subtype, enc_Flags := flags\<rparr> in
        if subtype = EncSubtypeInit then
          (case read_array 64 b2 of None \<Rightarrow> Inl ErrEOF
           | Some (k, b3) \<Rightarrow> Inr (p\<lparr>ENC := Some (enc\<lparr>enc_PublicKey := k\<rparr>)\<rparr>))
        else if subtype = EncSubtypeAuth then
          (case read_array 32 b2 of None \<Rightarrow> Inl ErrEOF
           | Some (a, b3) \<Rightarrow> Inr (p\<lparr>ENC := Some (enc\<lparr>enc_Authenticator := a\<rparr>)\<rparr>))
        else Inr (p\<lparr>ENC := Some enc\<rparr>))))"

text \<open>\<open>Parse\<close>; its \<open>options\<close> argument is unused in the source as well.\<close>

definition Parse :: "bytes \<Rightarrow> u16 \<Rightarrow> error + Packet" where
  "Parse data options =
     (if length data < 5 then Inl ErrPacketTooShort
      else if length data > MaxPacketSize then Inl ErrPacketTooLong
      else
        (case read_u16 data of None \<Rightarrow> Inl ErrEOF | Some (pid, b1) \<Rightarrow>
         (case read_u8 b1 of None \<Rightarrow> Inl ErrEOF | Some (ptype, b2) \<Rightarrow>
          (case read_u16 b2 of None \<Rightarrow> Inl ErrEOF | Some (sid, buf) \<Rightarrow>
           (let p = zero_Packet\<lparr>PacketID := pid, PacketType := ptype, SessionID := sid\<rparr> in
            if ptype = PacketTypeSYN then parse_SYN p buf
            else if ptype = PacketTypeMSG then parse_MSG p buf
            else if ptype = PacketTypeFIN then parse_FIN p buf
            else if ptype = PacketTypePING then parse_PING p buf
            else if ptype = PacketTypeENC then parse_ENC p buf
            else Inl (ErrUnknownMessageType ptype))))))"

definition PeekSessionID :: "bytes \<Rightarrow> error + u16" where
  "PeekSessionID data =
     (if length data < 5 then Inl ErrPacketTooShort else Inr (u16_of (data ! 3) (data ! 4)))"

definition ToBytes :: "Packet \<Rightarrow> u16 \<Rightarrow> error + bytes" where
  "ToBytes p options =
     (let hdr = be16 (PacketID p) @ [PacketType p] @ be16 (SessionID p) in
      if PacketType p = PacketTypeSYN then
        (case SYN p of None \<Rightarrow> Inl ErrBodyNil
         | Some s \<Rightarrow>
             Inr (hdr @ be16 (syn_Seq s) @ be16 (syn_Options s) @
                  (if syn_Options s AND OptName \<noteq> 0 then writeNTString (syn_Name s) else [])))
      else if PacketType p = PacketTypeMSG then
        (case MSG p of None \<Rightarrow> Inl ErrBodyNil
         | Some m \<Rightarrow> Inr (hdr @ be16 (msg_Seq m) @ be16 (msg_Ack m) @ msg_Data m))
      else if PacketType p = PacketTypeFIN then
        (case FIN p of None \<Rightarrow> Inl ErrBodyNil
         | Some f \<Rightarrow> Inr (hdr @ writeNTString (fin_Reason f)))
      else if PacketType p = PacketTypePING then
        (case PING p of None \<Rightarrow> Inl ErrBodyNil
         | Some g \<Rightarrow> Inr (hdr @ writeNTString (ping_Data g)))
      else if PacketType p = PacketTypeENC then
        (case ENC p of None \<Rightarrow> Inl ErrBodyNil
         | Some e \<Rightarrow>
             Inr (hdr @ be16 (enc_Subtype e) @ be16 (enc_Flags e) @
                  (if enc_Subtype e = EncSubtypeInit then enc_PublicKey e
                   else if enc_Subtype e = EncSubtypeAuth then enc_Authenticator e
                   else [])))
      else Inl (ErrUnknownMessageType (PacketType p)))"


definition CreateMSG :: "u16 \<Rightarrow> u16 \<Rightarrow> u16 \<Rightarrow> u16 \<Rightarrow> bytes \<Rightarrow> Packet" where
  "CreateMSG pid sessionID seq ack d =
     zero_Packet\<lparr>PacketID := pid, PacketType := PacketTypeMSG, SessionID := sessionID,
                 MSG := Some \<lparr>msg_Seq = seq, msg_Ack = ack, msg_Data = d\<rparr>\<rparr>"

definition CreateFIN :: "u16 \<Rightarrow> u16 \<Rightarrow> bytes \<Rightarrow> Packet" where
  "CreateFIN pid sessionID reason =
     zero_Packet\<lparr>PacketID := pid, PacketType := PacketTypeFIN, SessionID := sessionID,
                 FIN := Some \<lparr>fin_Reason = reason\<rparr>\<rparr>"









section \<open>Command sub-protocol codec (package command, packet file)\<close>

definition CommandPing :: u16 where "CommandPing = 0x0000"
definition CommandShell :: u16 where "CommandShell = 0x0001"
definition CommandExec :: u16 where "CommandExec = 0x0002"
definition CommandDownload :: u16 where "CommandDownload = 0x0003"
definition CommandUpload :: u16 where "CommandUpload = 0x0004"
definition CommandShutdown :: u16 where "CommandShutdown = 0x0005"
definition CommandDelay :: u16 where "CommandDelay = 0x0006"
definition TunnelConnect :: u16 where "TunnelConnect = 0x1000"
definition TunnelData :: u16 where "TunnelData = 0x1001"
definition TunnelClose :: u16 where "TunnelClose = 0x1002"
definition CommandError :: u16 where "CommandError = 0xFFFF"

definition TunnelStatusFail :: u16 where "TunnelStatusFail = 0x8000"

record PingRequestBody =
  pingreq_Data :: bytes

record ShellRequestBody =
  shellreq_Name :: bytes

record ExecRequestBody =
  execreq_Name :: bytes
  execreq_Command :: bytes

record DownloadRequestBody =
  dlreq_Filename :: bytes

record UploadRequestBody =
  upreq_Filename :: bytes
  upreq_Data :: bytes

record DelayRequestBody =
  delayreq_Delay :: u32

record TunnelConnectRequestBody =
  tcreq_Options :: u32
  tcreq_Host :: bytes
  tcreq_Port :: u16

record TunnelDataRequestBody =
  tdreq_TunnelID :: u32
  tdreq_Data :: bytes

record TunnelCloseRequestBody =
  tclreq_TunnelID :: u32
  tclreq_Reason :: bytes

record ErrorRequestBody =
  errreq_Status :: u16
  errreq_Reason :: bytes

record PingResponseBody =
  pingresp_Data :: bytes

record ShellResponseBody =
  shellresp_SessionID :: u16

record ExecResponseBody =
  execresp_SessionID :: u16

record DownloadResponseBody =
  dlresp_Data :: bytes

record TunnelConnectResponseBody =
  tcresp_Status :: u16
  tcresp_TunnelID :: u32

record ErrorResponseBody =
  errresp_Status :: u16
  errresp_Reason :: bytes

text \<open>
  The command packet: a struct of body pointers, \<open>None\<close> for \<open>nil\<close>.  The empty structs
  (\<open>ShutdownRequest\<close>, \<open>UploadResponse\<close>, \<open>ShutdownResponse\<close>, \<open>DelayResponse\<close>) are \<open>unit\<close>.
\<close>

record CmdPacket =
  RequestID :: u16
  CommandID :: u16
  IsRequest :: bool
  PingRequest :: "PingRequestBody option"
  ShellRequest :: "ShellRequestBody option"
  ExecRequest :: "ExecRequestBody option"
  DownloadRequest :: "DownloadRequestBody option"
  UploadRequest :: "UploadRequestBody option"
  ShutdownRequest :: "unit option"
  DelayRequest :: "DelayRequestBody option"
  TunnelConnectRequest :: "TunnelConnectRequestBody option"
  TunnelDataRequest :: "TunnelDataRequestBody option"
  TunnelCloseRequest :: "TunnelCloseRequestBody option"
  ErrorRequest :: "ErrorRequestBody option"
  PingResponse :: "PingResponseBody option"
  ShellResponse :: "ShellResponseBody option"
  ExecResponse :: "ExecResponseBody option"
  DownloadResponse :: "DownloadResponseBody option"
  UploadResponse :: "unit option"
  ShutdownResponse :: "unit option"
  DelayResponse :: "unit option"
  TunnelConnectResponse :: "TunnelConnectResponseBody option"
  ErrorResponse :: "ErrorResponseBody option"

definition zero_CmdPacket :: CmdPacket where
  "zero_CmdPacket =
     \<lparr>RequestID = 0, CommandID = 0, IsRequest = False,
      PingRequest = None, ShellRequest = None, ExecRequest = None, DownloadRequest = None,
      UploadRequest = None, ShutdownRequest = None, DelayRequest = None,
      TunnelConnectRequest = None, TunnelDataRequest = None, TunnelCloseRequest = None,
      ErrorRequest = None, PingResponse = None, ShellResponse = None, ExecResponse = None,
      DownloadResponse = None, UploadResponse = None, ShutdownResponse = None,
      DelayResponse = None, TunnelConnectResponse = None, ErrorResponse = None\<rparr>"

text \<open>
  The command codec ignores the errors of its reads.  A \<open>binary.Read\<close> that meets the
  end of the input leaves its variable 0 and the reader exhausted; \<open>readNTString\<close> of
  this package returns what it has read when the input ends without a zero byte.
\<close>

definition read_u16_lenient :: "bytes \<Rightarrow> u16 \<times> bytes" where
  "read_u16_lenient buf = (case read_u16 buf of None \<Rightarrow> (0, []) | Some r \<Rightarrow> r)"

definition read_u32_lenient :: "bytes \<Rightarrow> u32 \<times> bytes" where
  "read_u32_lenient buf = (case read_u32 buf of None \<Rightarrow> (0, []) | Some r \<Rightarrow> r)"

fun readNTString_cmd :: "bytes \<Rightarrow> bytes \<times> bytes" where
  "readNTString_cmd [] = ([], [])"
| "readNTString_cmd (b # r) =
     (if b = 0 then ([], r)
      else (case readNTString_cmd r of (s, r') \<Rightarrow> (b # s, r')))"

definition parsePacket :: "bytes \<Rightarrow> error + CmdPacket" where
  "parsePacket data =
     (if length data < 4 then Inl ErrPacketTooShort
      else
        (case read_u16_lenient data of (packedID, b1) \<Rightarrow>
         (case read_u16_lenient b1 of (cmdID, buf) \<Rightarrow>
          (let p = zero_CmdPacket\<lparr>RequestID := packedID AND 0x7FFF,
                                   IsRequest := (packedID AND 0x8000 = 0),
                                   CommandID := cmdID\<rparr>
           in
           if cmdID = CommandPing then
             (if IsRequest p
              then Inr (p\<lparr>PingRequest := Some \<lparr>pingreq_Data = fst (readNTString_cmd buf)\<rparr>\<rparr>)
              else Inr (p\<lparr>PingResponse := Some \<lparr>pingresp_Data = fst (readNTString_cmd buf)\<rparr>\<rparr>))
           else if cmdID = CommandShell then
             (if IsRequest p
              then Inr (p\<lparr>ShellRequest := Some \<lparr>shellreq_Name = fst (readNTString_cmd buf)\<rparr>\<rparr>)
              else Inr (p\<lparr>ShellResponse :=
                            Some \<lparr>shellresp_SessionID = fst (read_u16_lenient buf)\<rparr>\<rparr>))
           else if cmdID = CommandExec then
             (if IsRequest p
              then (case readNTString_cmd buf of (name, b2) \<Rightarrow>
                    Inr (p\<lparr>ExecRequest :=
                            Some \<lparr>execreq_Name = name,
                                  execreq_Command = fst (readNTString_cmd b2)\<rparr>\<rparr>))
              else Inr (p\<lparr>ExecResponse :=
                            Some \<lparr>execresp_SessionID = fst (read_u16_lenient buf)\<rparr>\<rparr>))
           else if cmdID = CommandDownload then
             (if IsRequest p
              then Inr (p\<lparr>DownloadRequest :=
                            Some \<lparr>dlreq_Filename = fst (readNTString_cmd buf)\<rparr>\<rparr>)
              else Inr (p\<lparr>DownloadResponse := Some \<lparr>dlresp_Data = buf\<rparr>\<rparr>))
           else if cmdID = CommandUpload then
             (if IsRequest p
              then (case readNTString_cmd buf of (filename, b2) \<Rightarrow>
                    Inr (p\<lparr>UploadRequest :=
                            Some \<lparr>upreq_Filename = filename, upreq_Data = b2\<rparr>\<rparr>))
              else Inr (p\<lparr>UploadResponse := Some ()\<rparr>))
           else if cmdID = CommandShutdown then
             (if IsRequest p
              then Inr (p\<lparr>ShutdownRequest := Some ()\<rparr>)
              else Inr (p\<lparr>ShutdownResponse := Some ()\<rparr>))
           else if cmdID = CommandDelay then
             (if IsRequest p
              then Inr (p\<lparr>DelayRequest :=
                            Some \<lparr>delayreq_Delay = fst (read_u32_lenient buf)\<rparr>\<rparr>)
              else Inr (p\<lparr>DelayResponse := Some ()\<rparr>))
           else if cmdID = TunnelConnect then
             (if IsRequest p
              then (case read_u32_lenient buf of (options, b2) \<Rightarrow>
                    (case readNTString_cmd b2 of (host, b3) \<Rightarrow>
                     Inr (p\<lparr>TunnelConnectRequest :=
                             Some \<lparr>tcreq_Options = options, tcreq_Host = host,
                                   tcreq_Port = fst (read_u16_lenient b3)\<rparr>\<rparr>)))
              else Inr (p\<lparr>TunnelConnectResponse :=
                            Some \<lparr>tcresp_Status = 0,
                                  tcresp_TunnelID = fst (read_u32_lenient buf)\<rparr>\<rparr>))
           else if cmdID = TunnelData then
             (if IsRequest p
              then (case read_u32_lenient buf of (tunnelID, b2) \<Rightarrow>
                    Inr (p\<lparr>TunnelDataRequest :=
                            Some \<lparr>tdreq_TunnelID = tunnelID, tdreq_Data = b2\<rparr>\<rparr>))
              else Inr p)
           else if cmdID = TunnelClose then
             (if IsRequest p
              then (case read_u32_lenient buf of (tunnelID, b2) \<Rightarrow>
                    Inr (p\<lparr>TunnelCloseRequest :=
                            Some \<lparr>tclreq_TunnelID = tunnelID,
                                  tclreq_Reason = fst (readNTString_cmd b2)\<rparr>\<rparr>))
              else Inr p)
           else if cmdID = CommandError then
             (case read_u16_lenient buf of (status, b2) \<Rightarrow>
              (if IsRequest p
               then Inr (p\<lparr>ErrorRequest :=
                             Some \<lparr>errreq_Status = status,
                                   errreq_Reason = fst (readNTString_cmd b2)\<rparr>\<rparr>)
               else Inr (p\<lparr>ErrorResponse :=
                             Some \<lparr>errresp_Status = status,
                                   errresp_Reason = fst (readNTString_cmd b2)\<rparr>\<rparr>)))
           else Inl (ErrUnknownCommand cmdID)))))"

text \<open>
  \<open>ReadPacket\<close> on a \<open>bytes.Buffer\<close>: the result and the bytes left in the buffer.
  \<open>Inr None\<close> is Go's \<open>(nil, nil)\<close>, "not enough data yet".  The length arithmetic is
  on \<open>uint32\<close>, also \<open>uint32(buf.Len())\<close>; \<open>make([]byte, length)\<close> is zero-filled behind
  what \<open>buf.Read\<close> delivers.
\<close>

definition ReadPacket :: "bytes \<Rightarrow> (error + CmdPacket option) \<times> bytes" where
  "ReadPacket buf =
     (if length buf < 4 then (Inr None, buf)
      else
        (let len = u32_of (buf ! 0) (buf ! 1) (buf ! 2) (buf ! 3) in
         if len + 4 < len then (Inl ErrOverflow, buf)
         else if (of_nat (length buf) :: u32) < len + 4 then (Inr None, buf)
         else
           (let rest = drop 4 buf;
                data = take (unat len) rest @ replicate (unat len - length rest) 0
            in (case parsePacket data of
                  Inl e \<Rightarrow> (Inl e, drop (unat len) rest)
                | Inr p \<Rightarrow> (Inr (Some p), drop (unat len) rest)))))"

definition ToBytes_cmd :: "CmdPacket \<Rightarrow> bytes" where
  "ToBytes_cmd p =
     (let packedID = (if IsRequest p then RequestID p AND 0x7FFF
                      else (RequestID p AND 0x7FFF) OR 0x8000);
          hd4 = be16 packedID @ be16 (CommandID p);
          body =
            (if CommandID p = CommandPing then
               (case (IsRequest p, PingRequest p, PingResponse p) of
                  (True, Some b, _) \<Rightarrow> writeNTString (pingreq_Data b)
                | (False, _, Some b) \<Rightarrow> writeNTString (pingresp_Data b)
                | _ \<Rightarrow> [])
             else if CommandID p = CommandShell then
               (case (IsRequest p, ShellRequest p, ShellResponse p) of
                  (True, Some b, _) \<Rightarrow> writeNTString (shellreq_Name b)
                | (False, _, Some b) \<Rightarrow> be16 (shellresp_SessionID b)
                | _ \<Rightarrow> [])
             else if CommandID p = CommandExec then
               (case (IsRequest p, ExecRequest p, ExecResponse p) of
                  (True, Some b, _) \<Rightarrow>
                    writeNTString (execreq_Name b) @ writeNTString (execreq_Command b)
                | (False, _, Some b) \<Rightarrow> be16 (execresp_SessionID b)
                | _ \<Rightarrow> [])
             else if CommandID p = CommandDownload then
               (case (IsRequest p, DownloadRequest p, DownloadResponse p) of
                  (True, Some b, _) \<Rightarrow> writeNTString (dlreq_Filename b)
                | (False, _, Some b) \<Rightarrow> dlresp_Data b
                | _ \<Rightarrow> [])
             else if CommandID p = CommandUpload then
               (case (IsRequest p, UploadRequest p) of
                  (True, Some b) \<Rightarrow> writeNTString (upreq_Filename b) @ upreq_Data b
                | _ \<Rightarrow> [])
             else if CommandID p = CommandShutdown then []
             else if CommandID p = CommandDelay then
               (case (IsRequest p, DelayRequest p) of
                  (True, Some b) \<Rightarrow> be32 (delayreq_Delay b)
                | _ \<Rightarrow> [])
             else if CommandID p = TunnelConnect then
               (case (IsRequest p, TunnelConnectRequest p, TunnelConnectResponse p) of
                  (True, Some b, _) \<Rightarrow>
                    be32 (tcreq_Options b) @ writeNTString (tcreq_Host b) @ be16 (tcreq_Port b)
                | (False, _, Some b) \<Rightarrow> be32 (tcresp_TunnelID b)
                | _ \<Rightarrow> [])
             else if CommandID p = TunnelData then
               (case (IsRequest p, TunnelDataRequest p) of
                  (True, Some b) \<Rightarrow> be32 (tdreq_TunnelID b) @ tdreq_Data b
                | _ \<Rightarrow> [])
             else if CommandID p = TunnelClose then
               (case (IsRequest p, TunnelCloseRequest p) of
                  (True, Some b) \<Rightarrow> be32 (tclreq_TunnelID b) @ writeNTString (tclreq_Reason b)
                | _ \<Rightarrow> [])
             else if CommandID p = CommandError then
               (case (IsRequest p, ErrorRequest p, ErrorResponse p) of
                  (True, Some b, _) \<Rightarrow> be16 (errreq_Status b) @ writeNTString (errreq_Reason b)
                | (False, _, Some b) \<Rightarrow> be16 (errresp_Status b) @ writeNTString (errresp_Reason b)
                | _ \<Rightarrow> [])
             else [])
      in be32 (of_nat (length (hd4 @ body))) @ hd4 @ body)"

definition CreatePingResponse :: "u16 \<Rightarrow> bytes \<Rightarrow> CmdPacket" where
  "CreatePingResponse requestID d =
     zero_CmdPacket\<lparr>RequestID := requestID, CommandID := CommandPing, IsRequest := False,
                    PingResponse := Some \<lparr>pingresp_Data = d\<rparr>\<rparr>"

definition CreateShellResponse :: "u16 \<Rightarrow> u16 \<Rightarrow> CmdPacket" where
  "CreateShellResponse requestID sessionID =
     zero_CmdPacket\<lparr>RequestID := requestID, CommandID := CommandShell, IsRequest := False,
                    ShellResponse := Some \<lparr>shellresp_SessionID = sessionID\<rparr>\<rparr>"

definition CreateExecResponse :: "u16 \<Rightarrow> u16 \<Rightarrow> CmdPacket" where
  "CreateExecResponse requestID sessionID =
     zero_CmdPacket\<lparr>RequestID := requestID, CommandID := CommandExec, IsRequest := False,
                    ExecResponse := Some \<lparr>execresp_SessionID = sessionID\<rparr>\<rparr>"

definition CreateDownloadResponse :: "u16 \<Rightarrow> bytes \<Rightarrow> CmdPacket" where
  "CreateDownloadResponse requestID d =
     zero_CmdPacket\<lparr>RequestID := requestID, CommandID := CommandDownload, IsRequest := False,
                    DownloadResponse := Some \<lparr>dlresp_Data = d\<rparr>\<rparr>"

definition CreateUploadResponse :: "u16 \<Rightarrow> CmdPacket" where
  "CreateUploadResponse requestID =
     zero_CmdPacket\<lparr>RequestID := requestID, CommandID := CommandUpload, IsRequest := False,
                    UploadResponse := Some ()\<rparr>"

definition CreateShutdownResponse :: "u16 \<Rightarrow> CmdPacket" where
  "CreateShutdownResponse requestID =
     zero_CmdPacket\<lparr>RequestID := requestID, CommandID := CommandShutdown, IsRequest := False,
                    ShutdownResponse := Some ()\<rparr>"

definition CreateDelayResponse :: "u16 \<Rightarrow> CmdPacket" where
  "CreateDelayResponse requestID =
     zero_CmdPacket\<lparr>RequestID := requestID, CommandID := CommandDelay, IsRequest := False,
                    DelayResponse := Some ()\<rparr>"

definition CreateTunnelConnectResponse :: "u16 \<Rightarrow> u32 \<Rightarrow> CmdPacket" where
  "CreateTunnelConnectResponse requestID tunnelID =
     zero_CmdPacket\<lparr>RequestID := requestID, CommandID := TunnelConnect, IsRequest := False,
                    TunnelConnectResponse :=
                      Some \<lparr>tcresp_Status = 0, tcresp_TunnelID = tunnelID\<rparr>\<rparr>"

definition CreateTunnelDataRequest :: "u16 \<Rightarrow> u32 \<Rightarrow> bytes \<Rightarrow> CmdPacket" where
  "CreateTunnelDataRequest requestID tunnelID d =
     zero_CmdPacket\<lparr>RequestID := requestID, CommandID := TunnelData, IsRequest := True,
                    TunnelDataRequest := Some \<lparr>tdreq_TunnelID = tunnelID, tdreq_Data = d\<rparr>\<rparr>"

definition CreateTunnelCloseRequest :: "u16 \<Rightarrow> u32 \<Rightarrow> bytes \<Rightarrow> CmdPacket" where
  "CreateTunnelCloseRequest requestID tunnelID reason =
     zero_CmdPacket\<lparr>RequestID := requestID, CommandID := TunnelClose, IsRequest := True,
                    TunnelCloseRequest :=
                      Some \<lparr>tclreq_TunnelID = tunnelID, tclreq_Reason = reason\<rparr>\<rparr>"

definition CreateErrorResponse :: "u16 \<Rightarrow> u16 \<Rightarrow> bytes \<Rightarrow> CmdPacket" where
  "CreateErrorResponse requestID status reason =
     zero_CmdPacket\<lparr>RequestID := requestID, CommandID := CommandError, IsRequest := False,
                    ErrorResponse := Some \<lparr>errresp_Status = status, errresp_Reason = reason\<rparr>\<rparr>"

section \<open>Command driver (pkg/driver/command/driver.go)\<close>

text \<open>
  The driver's state: the input stream, the pending output, the open tunnels (host and
  port; the socket itself is outside the model) and the two counters.  \<open>printed\<close>
  records the decoding errors that \<open>processPackets\<close> prints on the client's console.
  What lies outside the driver is a parameter: the session callback (\<open>None\<close> for a
  nil callback), the platform, file reads and writes, whether a dial succeeds, and
  the callbacks \<open>OnShutdown\<close> and \<open>OnDelayChange\<close>, which act on other objects: \<open>None\<close>
  for a nil callback, else whether the call returns.  The mutex \<open>d.mu\<close> enters where
  it decides the outcome: \<open>processPackets\<close> holds it for the whole loop, \<open>sync.Mutex\<close>
  is not reentrant, and a handler that locks it again never returns.
\<close>

record CmdDriver =
  stream :: bytes
  outgoingData :: bytes
  isShutdown :: bool
  tunnels :: "u32 \<Rightarrow> (bytes \<times> u16) option"
  requestID :: u32
  tunnelID :: u32
  printed :: "error list"

record cmd_env =
  env_CreateSession :: "(bytes \<Rightarrow> bytes \<Rightarrow> u16) option"
  env_windows :: bool
  env_ReadFile :: "bytes \<Rightarrow> bytes option"
  env_WriteFile :: "bytes \<Rightarrow> bytes \<Rightarrow> bool"
  env_Dial :: "bytes \<Rightarrow> u16 \<Rightarrow> bool"
  env_OnShutdown :: "bool option"
  env_OnDelayChange :: "(u32 \<Rightarrow> bool) option"

definition NewDriver :: CmdDriver where
  "NewDriver = \<lparr>stream = [], outgoingData = [], isShutdown = False,
                tunnels = (\<lambda>_. None), requestID = 0, tunnelID = 0, printed = []\<rparr>"

definition nextRequestID :: "CmdDriver \<Rightarrow> u16 \<times> CmdDriver" where
  "nextRequestID d = (ucast (requestID d + 1), d\<lparr>requestID := requestID d + 1\<rparr>)"

definition nextTunnelID :: "CmdDriver \<Rightarrow> u32 \<times> CmdDriver" where
  "nextTunnelID d = (tunnelID d + 1, d\<lparr>tunnelID := tunnelID d + 1\<rparr>)"

text \<open>
  \<open>closeTunnel\<close> takes the mutex itself; the tunnel reader calls it from its own
  goroutine.
\<close>

definition closeTunnel :: "CmdDriver \<Rightarrow> u32 \<Rightarrow> bytes \<Rightarrow> CmdDriver" where
  "closeTunnel d tid reason =
     (case tunnels d tid of None \<Rightarrow> d
      | Some t \<Rightarrow>
          (case nextRequestID (d\<lparr>tunnels := (tunnels d)(tid := None)\<rparr>) of (rid, d1) \<Rightarrow>
             d1\<lparr>outgoingData :=
                  outgoingData d1 @ ToBytes_cmd (CreateTunnelCloseRequest rid tid reason)\<rparr>))"

text \<open>
  \<open>handlePacket\<close>, as \<open>processPackets\<close> calls it with the mutex held, its handlers
  inlined in the order of the source's switch.  A handler that reads through a nil
  body pointer panics: \<open>Inl ErrNilDereference\<close>.  \<open>handleTunnelData\<close> and
  \<open>handleTunnelClose\<close> lock the mutex as their first step on a request, so the call
  blocks there for good: \<open>Inl ErrMutexHeld\<close>.  A callback that does not return leaves
  the handler in it: \<open>Inl ErrCallbackBlocked\<close>.
\<close>

definition handlePacket ::
  "cmd_env \<Rightarrow> CmdDriver \<Rightarrow> CmdPacket \<Rightarrow> error + (CmdPacket option \<times> CmdDriver)" where
  "handlePacket env d pkt =
     (if CommandID pkt = CommandPing then
        (if \<not> IsRequest pkt then Inr (None, d)
         else (case PingRequest pkt of None \<Rightarrow> Inl ErrNilDereference
               | Some b \<Rightarrow> Inr (Some (CreatePingResponse (RequestID pkt) (pingreq_Data b)), d)))
      else if CommandID pkt = CommandShell then
        (if \<not> IsRequest pkt then Inr (None, d)
         else (case env_CreateSession env of
                 None \<Rightarrow> Inr (Some (CreateErrorResponse (RequestID pkt) 0xFFFF
                                      (bytes_of ''Session creation not supported'')), d)
               | Some create \<Rightarrow>
                   (let shellCmd = (if env_windows env then bytes_of ''cmd.exe''
                                    else bytes_of ''sh'')
                    in Inr (Some (CreateShellResponse (RequestID pkt)
                                    (create shellCmd shellCmd)), d))))
      else if CommandID pkt = CommandExec then
        (if \<not> IsRequest pkt then Inr (None, d)
         else (case env_CreateSession env of
                 None \<Rightarrow> Inr (Some (CreateErrorResponse (RequestID pkt) 0xFFFF
                                      (bytes_of ''Session creation not supported'')), d)
               | Some create \<Rightarrow>
                   (case ExecRequest pkt of None \<Rightarrow> Inl ErrNilDereference
                    | Some b \<Rightarrow>
                        Inr (Some (CreateExecResponse (RequestID pkt)
                                     (create (execreq_Name b) (execreq_Command b))), d))))
      else if CommandID pkt = CommandDownload then
        (if \<not> IsRequest pkt then Inr (None, d)
         else (case DownloadRequest pkt of None \<Rightarrow> Inl ErrNilDereference
               | Some b \<Rightarrow>
                   (case env_ReadFile env (dlreq_Filename b) of
                      None \<Rightarrow> Inr (Some (CreateErrorResponse (RequestID pkt) 0xFFFF
                                           (bytes_of ''Error opening file for reading'')), d)
                    | Some content \<Rightarrow>
                        Inr (Some (CreateDownloadResponse (RequestID pkt) content), d))))
      else if CommandID pkt = CommandUpload then
        (if \<not> IsRequest pkt then Inr (None, d)
         else (case UploadRequest pkt of None \<Rightarrow> Inl ErrNilDereference
               | Some b \<Rightarrow>
                   (if \<not> env_WriteFile env (upreq_Filename b) (upreq_Data b)
                    then Inr (Some (CreateErrorResponse (RequestID pkt) 0xFFFF
                                      (bytes_of ''Error opening file for writing'')), d)
                    else Inr (Some (CreateUploadResponse (RequestID pkt)), d))))
      else if CommandID pkt = CommandShutdown then
        (if \<not> IsRequest pkt then Inr (None, d)
         else if env_OnShutdown env = Some False then Inl ErrCallbackBlocked
         else Inr (Some (CreateShutdownResponse (RequestID pkt)), d))
      else if CommandID pkt = CommandDelay then
        (if \<not> IsRequest pkt then Inr (None, d)
         else (case env_OnDelayChange env of
                 None \<Rightarrow> Inr (Some (CreateDelayResponse (RequestID pkt)), d)
               | Some change \<Rightarrow>
                   (case DelayRequest pkt of None \<Rightarrow> Inl ErrNilDereference
                    | Some b \<Rightarrow>
                        (if \<not> change (delayreq_Delay b) then Inl ErrCallbackBlocked
                         else Inr (Some (CreateDelayResponse (RequestID pkt)), d)))))
      else if CommandID pkt = TunnelConnect then
        (if \<not> IsRequest pkt then Inr (None, d)
         else (case TunnelConnectRequest pkt of None \<Rightarrow> Inl ErrNilDereference
               | Some b \<Rightarrow>
                   (if \<not> env_Dial env (tcreq_Host b) (tcreq_Port b)
                    then Inr (Some (CreateErrorResponse (RequestID pkt) TunnelStatusFail
                           (bytes_of ''The dnscat2 client couldn't connect to the remote host!'')),
                              d)
                    else (case nextTunnelID d of (tid, d1) \<Rightarrow>
                          Inr (Some (CreateTunnelConnectResponse (RequestID pkt) tid),
                               d1\<lparr>tunnels :=
                                    (tunnels d1)(tid \<mapsto> (tcreq_Host b, tcreq_Port b))\<rparr>)))))
      else if CommandID pkt = TunnelData then
        (if \<not> IsRequest pkt then Inr (None, d) else Inl ErrMutexHeld)
      else if CommandID pkt = TunnelClose then
        (if \<not> IsRequest pkt then Inr (None, d) else Inl ErrMutexHeld)
      else if CommandID pkt = CommandError then
        (if IsRequest pkt
         then (case ErrorRequest pkt of None \<Rightarrow> Inl ErrNilDereference | Some b \<Rightarrow> Inr (None, d))
         else (case ErrorResponse pkt of None \<Rightarrow> Inl ErrNilDereference | Some b \<Rightarrow> Inr (None, d)))
      else Inr (Some (CreateErrorResponse (RequestID pkt) 0xFFFF
                        (bytes_of ''Not implemented yet!'')), d))"

lemma ReadPacket_consumes:
  "ReadPacket buf = (Inr (Some p), rest) \<Longrightarrow> length rest < length buf"
  by (auto simp add: ReadPacket_def Let_def split: if_splits sum.splits)

lemma handlePacket_stream:
  "handlePacket env d pkt = Inr (out, d') \<Longrightarrow> stream d' = stream d"
  by (auto simp add: handlePacket_def nextTunnelID_def Let_def
      split: if_splits option.splits prod.splits)

text \<open>
  \<open>processPackets\<close>: the loop decodes frames from the stream until \<open>ReadPacket\<close> reports
  an error or too little data.  An error ends the loop; it is printed only when bytes
  are left in the stream.  A response of \<open>handlePacket\<close> is appended to the output; a
  handler that panics or blocks ends the run with its \<open>Inl\<close>.
\<close>

function processPackets :: "cmd_env \<Rightarrow> CmdDriver \<Rightarrow> error + CmdDriver" where
  "processPackets env d =
     (case ReadPacket (stream d) of
        (Inl e, rest) \<Rightarrow>
          Inr (d\<lparr>stream := rest, printed := printed d @ (if rest \<noteq> [] then [e] else [])\<rparr>)
      | (Inr None, rest) \<Rightarrow> Inr (d\<lparr>stream := rest\<rparr>)
      | (Inr (Some pkt), rest) \<Rightarrow>
          (case handlePacket env (d\<lparr>stream := rest\<rparr>) pkt of
             Inl e \<Rightarrow> Inl e
           | Inr (None, d') \<Rightarrow> processPackets env d'
           | Inr (Some out, d') \<Rightarrow>
               processPackets env (d'\<lparr>outgoingData := outgoingData d' @ ToBytes_cmd out\<rparr>)))"
  by pat_completeness auto
termination
proof (relation "measure (\<lambda>(env, d). length (stream d))")
  show "wf (measure (\<lambda>(env, d). length (stream d)))"
    by simp
next
  fix env d x rest r pkt po x2 out d'
  assume "(x, rest) = ReadPacket (stream d)" "x = Inr po" "po = Some pkt"
    "handlePacket env (d\<lparr>stream := rest\<rparr>) pkt = Inr x2" "(out, d') = x2" "out = None"
  then show "((env, d'), (env, d)) \<in> measure (\<lambda>(env, d). length (stream d))"
    using ReadPacket_consumes [of "stream d" pkt rest]
      handlePacket_stream [of env "d\<lparr>stream := rest\<rparr>" pkt out d']
    by simp
next
  fix env d x rest r pkt po x2 out d' o2
  assume "(x, rest) = ReadPacket (stream d)" "x = Inr po" "po = Some pkt"
    "handlePacket env (d\<lparr>stream := rest\<rparr>) pkt = Inr x2" "(out, d') = x2" "out = Some o2"
  then show "((env, d'\<lparr>outgoingData := outgoingData d' @ ToBytes_cmd o2\<rparr>), (env, d))
      \<in> measure (\<lambda>(env, d). length (stream d))"
    using ReadPacket_consumes [of "stream d" pkt rest]
      handlePacket_stream [of env "d\<lparr>stream := rest\<rparr>" pkt out d']
    by simp
qed

text \<open>\<open>DataReceived\<close> of the command driver.\<close>

definition DataReceived_cmd :: "cmd_env \<Rightarrow> CmdDriver \<Rightarrow> bytes \<Rightarrow> error + CmdDriver" where
  "DataReceived_cmd env d input = processPackets env (d\<lparr>stream := stream d @ input\<rparr>)"

section \<open>Crypto engine (pkg/crypto/encryptor.go)\<close>

text \<open>
  The library primitives are parameters: SHA3-256 of the concatenated writes
  (\<open>sha3.New256\<close>, \<open>Write\<close>, \<open>Sum\<close>), the Salsa20 key stream for a key and an 8-byte
  nonce, by position, and P-256 (\<open>NewPublicKey\<close> as a validity test, \<open>ECDH\<close> from a
  private key and the peer's encoded point).  \<open>salsa20.XORKeyStream\<close> is the XOR of
  its input with that key stream.
\<close>

record primitives =
  sha3_256 :: "bytes \<Rightarrow> bytes"
  salsa20_keystream :: "bytes \<Rightarrow> bytes \<Rightarrow> nat \<Rightarrow> byte"
  p256_NewPublicKey :: "bytes \<Rightarrow> bool"
  p256_ECDH :: "bytes \<Rightarrow> bytes \<Rightarrow> bytes option"

definition XORKeyStream :: "primitives \<Rightarrow> bytes \<Rightarrow> bytes \<Rightarrow> bytes \<Rightarrow> bytes" where
  "XORKeyStream P input nonce8 key =
     map (\<lambda>(i, b). b XOR salsa20_keystream P key nonce8 i) (zip [0..<length input] input)"

definition HeaderLength :: nat where "HeaderLength = 5"
definition SignatureLength :: nat where "SignatureLength = 6"

record Encryptor =
  e_PresharedSecret :: bytes
  myPrivateKey :: bytes
  myPublicKey :: bytes
  theirPublicKey :: bytes
  sharedSecret :: bytes
  myAuthenticator :: bytes
  theirAuthenticator :: bytes
  myWriteKey :: bytes
  myMacKey :: bytes
  theirWriteKey :: bytes
  theirMacKey :: bytes
  nonce :: u16

text \<open>\<open>crypto.NewEncryptor\<close>; the outcome of the random key generation is its second argument.\<close>

definition crypto_NewEncryptor :: "bytes \<Rightarrow> (bytes \<times> bytes) option \<Rightarrow> error + Encryptor" where
  "crypto_NewEncryptor presharedSecret keypair =
     (case keypair of
        None \<Rightarrow> Inl ErrKeyGeneration
      | Some (priv, pub) \<Rightarrow>
          Inr \<lparr>e_PresharedSecret = presharedSecret, myPrivateKey = priv, myPublicKey = pub,
               theirPublicKey = [], sharedSecret = replicate 32 0,
               myAuthenticator = replicate 32 0, theirAuthenticator = replicate 32 0,
               myWriteKey = replicate 32 0, myMacKey = replicate 32 0,
               theirWriteKey = replicate 32 0, theirMacKey = replicate 32 0, nonce = 0\<rparr>)"

definition GetMyPublicKey :: "Encryptor \<Rightarrow> bytes" where
  "GetMyPublicKey e =
     (if length (myPublicKey e) = 65 \<and> myPublicKey e ! 0 = 0x04 then tl (myPublicKey e)
      else myPublicKey e)"

definition makeKey :: "primitives \<Rightarrow> Encryptor \<Rightarrow> string \<Rightarrow> bytes \<Rightarrow> bytes" where
  "makeKey P e keyName result =
     copy_into result (sha3_256 P (sharedSecret e @ bytes_of keyName))"

definition makeAuthenticator :: "primitives \<Rightarrow> Encryptor \<Rightarrow> string \<Rightarrow> bytes \<Rightarrow> bytes" where
  "makeAuthenticator P e authString buffer =
     copy_into buffer
       (sha3_256 P (bytes_of authString @ sharedSecret e @ GetMyPublicKey e @
                    theirPublicKey e @ e_PresharedSecret e))"

definition SetTheirPublicKey :: "primitives \<Rightarrow> Encryptor \<Rightarrow> bytes \<Rightarrow> error + Encryptor" where
  "SetTheirPublicKey P e theirPubKey =
     (let fullPubKey = (if length theirPubKey = 64 then 0x04 # theirPubKey else theirPubKey) in
      if \<not> p256_NewPublicKey P fullPubKey then Inl ErrInvalidPublicKey
      else
        (case p256_ECDH P (myPrivateKey e) fullPubKey of
           None \<Rightarrow> Inl ErrECDHFailed
         | Some shared \<Rightarrow>
             (let e1 = e\<lparr>theirPublicKey := theirPubKey,
                         sharedSecret := copy_into (sharedSecret e) (take 32 shared)\<rparr>;
                  e2 = e1\<lparr>myWriteKey := makeKey P e1 ''client_write_key'' (myWriteKey e1)\<rparr>;
                  e3 = e2\<lparr>myMacKey := makeKey P e2 ''client_mac_key'' (myMacKey e2)\<rparr>;
                  e4 = e3\<lparr>theirWriteKey := makeKey P e3 ''server_write_key'' (theirWriteKey e3)\<rparr>;
                  e5 = e4\<lparr>theirMacKey := makeKey P e4 ''server_mac_key'' (theirMacKey e4)\<rparr>
              in
              if e_PresharedSecret e5 \<noteq> [] then
                (let e6 = e5\<lparr>myAuthenticator :=
                               makeAuthenticator P e5 ''client'' (myAuthenticator e5)\<rparr>
                 in Inr (e6\<lparr>theirAuthenticator :=
                               makeAuthenticator P e6 ''server'' (theirAuthenticator e6)\<rparr>))
              else Inr e5)))"


definition GetTheirAuthenticator :: "Encryptor \<Rightarrow> bytes" where
  "GetTheirAuthenticator e = theirAuthenticator e"

definition GetNonce :: "Encryptor \<Rightarrow> u16 \<times> Encryptor" where
  "GetNonce e = (nonce e, e\<lparr>nonce := nonce e + 1\<rparr>)"


text \<open>The lengths that Go's array types give the key material of an engine.\<close>

definition Encryptor_arrays :: "Encryptor \<Rightarrow> bool" where
  "Encryptor_arrays e =
     (length (sharedSecret e) = 32 \<and> length (myAuthenticator e) = 32
      \<and> length (theirAuthenticator e) = 32 \<and> length (myWriteKey e) = 32
      \<and> length (myMacKey e) = 32 \<and> length (theirWriteKey e) = 32
      \<and> length (theirMacKey e) = 32)"

text \<open>\<open>CheckSignature\<close>: \<open>None\<close> is the source's \<open>(nil, false)\<close>.\<close>

definition CheckSignature :: "primitives \<Rightarrow> Encryptor \<Rightarrow> bytes \<Rightarrow> bytes option" where
  "CheckSignature P e d =
     (if length d < HeaderLength + SignatureLength then None
      else
        (let header = take HeaderLength d;
             theirSig = take SignatureLength (drop HeaderLength d);
             body = drop (HeaderLength + SignatureLength) d;
             goodSig = sha3_256 P (theirMacKey e @ header @ body)
         in if theirSig \<noteq> take SignatureLength goodSig then None
            else Some (header @ body)))"

definition nonceBytes :: "u16 \<Rightarrow> bytes" where
  "nonceBytes n = replicate 6 0 @ [ucast (drop_bit 8 n), ucast n]"

definition Decrypt :: "primitives \<Rightarrow> Encryptor \<Rightarrow> bytes \<Rightarrow> error + (bytes \<times> u16)" where
  "Decrypt P e d =
     (if length d < HeaderLength + 2 then Inl ErrDataTooShort
      else
        (let header = take HeaderLength d;
             n = u16_of (d ! HeaderLength) (d ! (HeaderLength + 1));
             body = drop (HeaderLength + 2) d;
             decrypted = XORKeyStream P body (nonceBytes n) (theirWriteKey e)
         in Inr (header @ decrypted, n)))"

definition Sign :: "primitives \<Rightarrow> Encryptor \<Rightarrow> bytes \<Rightarrow> bytes" where
  "Sign P e d =
     (if length d < HeaderLength then d
      else
        (let header = take HeaderLength d;
             body = drop HeaderLength d;
             sig = sha3_256 P (myMacKey e @ header @ body)
         in header @ take SignatureLength sig @ body))"

text \<open>\<open>Encrypt\<close> returns the bytes and the engine, whose nonce \<open>GetNonce\<close> has advanced.\<close>

definition Encrypt :: "primitives \<Rightarrow> Encryptor \<Rightarrow> bytes \<Rightarrow> bytes \<times> Encryptor" where
  "Encrypt P e d =
     (if length d < HeaderLength then (d, e)
      else
        (let header = take HeaderLength d;
             body = drop HeaderLength d
         in (case GetNonce e of (n, e') \<Rightarrow>
              (header @ [ucast (drop_bit 8 n), ucast n] @
                 XORKeyStream P body (nonceBytes n) (myWriteKey e'), e'))))"

section \<open>Session (pkg/session/session.go)\<close>

datatype State = StateBeforeInit | StateBeforeAuth | StateNew | StateEstablished

text \<open>The package's global settings; tracing only prints and is left out.\<close>

record Settings =
  PacketDelay :: int
  TransmitInstantOnData :: bool
  DoEncryption :: bool
  PresharedSecret :: bytes

text \<open>
  The \<open>Driver\<close> interface, as the buffering drivers implement it (the console driver
  and the command driver share the code of \<open>GetOutgoing\<close>): pending output, a
  shutdown flag, and the payloads handed to \<open>DataReceived\<close>, in order.  What a driver
  does with a payload, and what else its \<open>Close\<close> releases, lies behind the interface.
\<close>

record Driver =
  drv_outgoingData :: bytes
  drv_isShutdown :: bool
  drv_received :: "bytes list"

text \<open>\<open>GetOutgoing\<close> of a driver: \<open>None\<close> is \<open>nil\<close>, "the driver is done".\<close>

definition Driver_GetOutgoing :: "Driver \<Rightarrow> int \<Rightarrow> bytes option \<times> Driver" where
  "Driver_GetOutgoing d maxLength =
     (if drv_isShutdown d \<and> drv_outgoingData d = [] then (None, d)
      else if drv_outgoingData d = [] then (Some [], d)
      else
        (let sendLen = (if maxLength > 0 \<and> int (length (drv_outgoingData d)) > maxLength
                        then nat maxLength else length (drv_outgoingData d))
         in (Some (take sendLen (drv_outgoingData d)),
             d\<lparr>drv_outgoingData := drop sendLen (drv_outgoingData d)\<rparr>)))"

definition Driver_DataReceived :: "Driver \<Rightarrow> bytes \<Rightarrow> Driver" where
  "Driver_DataReceived d payload = d\<lparr>drv_received := drv_received d @ [payload]\<rparr>"

definition Driver_Close :: "Driver \<Rightarrow> Driver" where
  "Driver_Close d = d\<lparr>drv_isShutdown := True\<rparr>"

text \<open>
  \<open>LastTransmit\<close> is \<open>None\<close> for the zero \<open>time.Time\<close>, else a time in nanoseconds.  An
  \<open>Encryptor\<close> pointer is an option.
\<close>

record Session =
  ID :: u16
  State :: State
  TheirSeq :: u16
  MySeq :: u16
  Name :: bytes
  Options :: u16
  IsCommand :: bool
  IsPing :: bool
  Driver :: Driver
  OutgoingBuffer :: bytes
  Encryptor :: "Encryptor option"
  NewEncryptor :: "Encryptor option"
  LastTransmit :: "int option"
  MissedTransmissions :: int
  sess_isShutdown :: bool

text \<open>How a call ends: it returns, the process exits (\<open>os.Exit\<close>), or Go panics.\<close>

datatype 'a outcome = Return 'a | Exit int | Panic

definition shouldEncrypt :: "Settings \<Rightarrow> Session \<Rightarrow> bool" where
  "shouldEncrypt cfg s = (DoEncryption cfg \<and> State s \<noteq> StateBeforeInit)"



definition Kill :: "Session \<Rightarrow> Session" where
  "Kill s =
     (if sess_isShutdown s then s
      else s\<lparr>sess_isShutdown := True, Driver := Driver_Close (Driver s)\<rparr>)"

definition pollDriverForData :: "Session \<Rightarrow> Session" where
  "pollDriverForData s =
     (case Driver_GetOutgoing (Driver s) (-1) of (r, d') \<Rightarrow>
        (let s1 = s\<lparr>Driver := d'\<rparr> in
         case r of
           None \<Rightarrow> (if OutgoingBuffer s1 = [] then Kill s1 else s1)
         | Some payload \<Rightarrow>
             (if length payload > 0
              then s1\<lparr>OutgoingBuffer := OutgoingBuffer s1 @ payload\<rparr> else s1)))"



definition handleSYN :: "Session \<Rightarrow> Packet \<Rightarrow> (bool \<times> Session) outcome" where
  "handleSYN s pkt =
     (case State s of
        StateNew \<Rightarrow>
          (case SYN pkt of None \<Rightarrow> Panic
           | Some y \<Rightarrow>
               Return (True, s\<lparr>TheirSeq := syn_Seq y, Options := syn_Options y,
                               MissedTransmissions := 0, State := StateEstablished\<rparr>))
      | _ \<Rightarrow> Return (False, s))"

definition handleMSG :: "Settings \<Rightarrow> Session \<Rightarrow> Packet \<Rightarrow> (bool \<times> Session) outcome" where
  "handleMSG cfg s pkt =
     (if State s \<noteq> StateEstablished then Return (False, s)
      else
        (case MSG pkt of None \<Rightarrow> Panic
         | Some m \<Rightarrow>
             (if msg_Seq m = TheirSeq s then
                (let bytesAcked = (msg_Ack m - MySeq s) AND 0xFFFF in
                 if unat bytesAcked \<le> length (OutgoingBuffer s) then
                   (let s1 = s\<lparr>MissedTransmissions := 0\<rparr>;
                        instant = (bytesAcked > 0 \<and> TransmitInstantOnData cfg);
                        s2 = (if instant then s1\<lparr>LastTransmit := None\<rparr> else s1);
                        s3 = s2\<lparr>TheirSeq :=
                                  (TheirSeq s2 + of_nat (length (msg_Data m))) AND 0xFFFF\<rparr>;
                        s4 = (if bytesAcked > 0
                              then s3\<lparr>OutgoingBuffer := drop (unat bytesAcked) (OutgoingBuffer s3),
                                      MySeq := (MySeq s3 + bytesAcked) AND 0xFFFF\<rparr>
                              else s3);
                        s5 = (if length (msg_Data m) > 0
                              then s4\<lparr>Driver := Driver_DataReceived (Driver s4) (msg_Data m),
                                      LastTransmit := None\<rparr>
                              else s4)
                    in Return (instant, s5))
                 else Return (False, s))
              else Return (False, s))))"

definition handleFIN :: "Session \<Rightarrow> Packet \<Rightarrow> (bool \<times> Session) outcome" where
  "handleFIN s pkt =
     (case FIN pkt of None \<Rightarrow> Panic
      | Some f \<Rightarrow> Return (True, Kill (s\<lparr>LastTransmit := None, MissedTransmissions := 0\<rparr>)))"

definition handleENC ::
  "Settings \<Rightarrow> primitives \<Rightarrow> Session \<Rightarrow> Packet \<Rightarrow> (bool \<times> Session) outcome" where
  "handleENC cfg P s pkt =
     (case ENC pkt of None \<Rightarrow> Panic
      | Some c \<Rightarrow>
          (case State s of
             StateBeforeInit \<Rightarrow>
               (if enc_Subtype c \<noteq> EncSubtypeInit then Exit 1
                else
                  (case Encryptor s of None \<Rightarrow> Panic
                   | Some e \<Rightarrow>
                       (case SetTheirPublicKey P e (enc_PublicKey c) of
                          Inl err \<Rightarrow> Exit 1
                        | Inr e' \<Rightarrow>
                            Return (True,
                                    s\<lparr>Encryptor := Some e',
                                      State := (if PresharedSecret cfg \<noteq> [] then StateBeforeAuth
                                                else StateNew)\<rparr>))))
           | StateBeforeAuth \<Rightarrow>
               (if enc_Subtype c \<noteq> EncSubtypeAuth then Exit 1
                else
                  (case Encryptor s of None \<Rightarrow> Panic
                   | Some e \<Rightarrow>
                       (if enc_Authenticator c \<noteq> GetTheirAuthenticator e then Exit 1
                        else Return (True, s\<lparr>State := StateNew\<rparr>))))
           | StateEstablished \<Rightarrow>
               (case NewEncryptor s of None \<Rightarrow> Exit 1
                | Some ne \<Rightarrow>
                    (case SetTheirPublicKey P ne (enc_PublicKey c) of
                       Inl err \<Rightarrow> Exit 1
                     | Inr ne' \<Rightarrow>
                         Return (True, s\<lparr>Encryptor := Some ne', NewEncryptor := None\<rparr>)))
           | StateNew \<Rightarrow> Exit 1))"

text \<open>The part of \<open>DataIncoming\<close> behind the decryption: parse and dispatch.\<close>

definition dispatchIncoming ::
  "Settings \<Rightarrow> primitives \<Rightarrow> Session \<Rightarrow> bytes \<Rightarrow> (bool \<times> Session) outcome" where
  "dispatchIncoming cfg P s packetData =
     (case Parse packetData (Options s) of
        Inl err \<Rightarrow> Return (False, s)
      | Inr pkt \<Rightarrow>
          (if IsPing s \<and> PacketType pkt = PacketTypePING then
             (case PING pkt of None \<Rightarrow> Panic
              | Some g \<Rightarrow> Return (True, s\<lparr>Driver := Driver_DataReceived (Driver s) (ping_Data g)\<rparr>))
           else if PacketType pkt = PacketTypeSYN then handleSYN s pkt
           else if PacketType pkt = PacketTypeMSG then handleMSG cfg s pkt
           else if PacketType pkt = PacketTypeFIN then handleFIN s pkt
           else if PacketType pkt = PacketTypeENC then handleENC cfg P s pkt
           else Return (False, s)))"

definition DataIncoming ::
  "Settings \<Rightarrow> primitives \<Rightarrow> Session \<Rightarrow> bytes \<Rightarrow> (bool \<times> Session) outcome" where
  "DataIncoming cfg P s0 input =
     (let s = pollDriverForData s0 in
      if shouldEncrypt cfg s then
        (case Encryptor s of None \<Rightarrow> Panic
         | Some e \<Rightarrow>
             (case CheckSignature P e input of
                None \<Rightarrow> Return (False, s)
              | Some verified \<Rightarrow>
                  (case Decrypt P e verified of
                     Inl err \<Rightarrow> Return (False, s)
                   | Inr (packetData, n) \<Rightarrow> dispatchIncoming cfg P s packetData)))
      else dispatchIncoming cfg P s input)"

section \<open>DNS transport decoding (pkg/tunnel/dns)\<close>



record DNSQuestion =
  q_Name :: bytes
  q_Type :: u16
  q_Class :: u16

record DNSAnswer =
  ans_Name :: bytes
  ans_Type :: u16
  ans_Class :: u16
  ans_TTL :: u32
  ans_Data :: bytes










text \<open>
  \<open>sort.Slice\<close> on the answers, by the first data byte.  With two or more answers the
  comparison reads \<open>Data[0]\<close> of every answer, and Go panics on an answer without
  data.  \<open>sort.Slice\<close> is not stable: it leaves the answers in an order that is sorted
  by the first byte, and which one, among answers with equal first bytes, is up to
  the library.  \<open>sortAnswers\<close> gives every such order: the rearrangements of the
  answers whose first bytes ascend.
\<close>

fun insert_everywhere :: "'a \<Rightarrow> 'a list \<Rightarrow> 'a list list" where
  "insert_everywhere x [] = [[x]]"
| "insert_everywhere x (y # ys) = (x # y # ys) # map ((#) y) (insert_everywhere x ys)"

fun orderings :: "'a list \<Rightarrow> 'a list list" where
  "orderings [] = [[]]"
| "orderings (x # xs) = concat (map (insert_everywhere x) (orderings xs))"

definition sortAnswers :: "DNSAnswer list \<Rightarrow> error + DNSAnswer list list" where
  "sortAnswers as =
     (if length as \<ge> 2 \<and> (\<exists>a \<in> set as. ans_Data a = []) then Inl ErrIndexOutOfRange
      else Inr (filter (\<lambda>r. sorted (map (\<lambda>a. hd (ans_Data a)) r)) (orderings as)))"



section \<open>Frames that the codecs carry faithfully\<close>

text \<open>
  A string that \<open>writeNTString\<close> can carry: it holds no zero byte, the terminator.
\<close>

definition nul_free :: "bytes \<Rightarrow> bool" where
  "nul_free s = (0 \<notin> set s)"

text \<open>
  An outer frame whose one body is that of its type: a SYN has a name exactly when
  its name bit is set, an ENC is a key-init or an auth, with arrays of 64 and 32 bytes
  and zeros in the array its subtype does not send.
\<close>

definition Packet_valid :: "Packet \<Rightarrow> bool" where
  "Packet_valid p =
     (if PacketType p = PacketTypeSYN then
        (case SYN p of None \<Rightarrow> False
         | Some y \<Rightarrow> (if syn_Options y AND OptName \<noteq> 0 then nul_free (syn_Name y)
                      else syn_Name y = []))
        \<and> MSG p = None \<and> FIN p = None \<and> PING p = None \<and> ENC p = None
      else if PacketType p = PacketTypeMSG then
        MSG p \<noteq> None \<and> SYN p = None \<and> FIN p = None \<and> PING p = None \<and> ENC p = None
      else if PacketType p = PacketTypeFIN then
        (case FIN p of None \<Rightarrow> False | Some f \<Rightarrow> nul_free (fin_Reason f))
        \<and> SYN p = None \<and> MSG p = None \<and> PING p = None \<and> ENC p = None
      else if PacketType p = PacketTypePING then
        (case PING p of None \<Rightarrow> False | Some g \<Rightarrow> nul_free (ping_Data g))
        \<and> SYN p = None \<and> MSG p = None \<and> FIN p = None \<and> ENC p = None
      else if PacketType p = PacketTypeENC then
        (case ENC p of None \<Rightarrow> False
         | Some c \<Rightarrow>
             length (enc_PublicKey c) = 64 \<and> length (enc_Authenticator c) = 32
             \<and> (if enc_Subtype c = EncSubtypeInit then enc_Authenticator c = replicate 32 0
                 else enc_Subtype c = EncSubtypeAuth \<and> enc_PublicKey c = replicate 64 0))
        \<and> SYN p = None \<and> MSG p = None \<and> FIN p = None \<and> PING p = None
      else False)"

text \<open>No body pointer of a command packet is set.\<close>

definition no_bodies :: "CmdPacket \<Rightarrow> bool" where
  "no_bodies p =
     (PingRequest p = None \<and> ShellRequest p = None \<and> ExecRequest p = None
      \<and> DownloadRequest p = None \<and> UploadRequest p = None \<and> ShutdownRequest p = None
      \<and> DelayRequest p = None \<and> TunnelConnectRequest p = None \<and> TunnelDataRequest p = None
      \<and> TunnelCloseRequest p = None \<and> ErrorRequest p = None \<and> PingResponse p = None
      \<and> ShellResponse p = None \<and> ExecResponse p = None \<and> DownloadResponse p = None
      \<and> UploadResponse p = None \<and> ShutdownResponse p = None \<and> DelayResponse p = None
      \<and> TunnelConnectResponse p = None \<and> ErrorResponse p = None)"

text \<open>
  A command packet whose one body is that of its kind and direction (none for the
  responses to tunnel data and tunnel close), with a request id of 15 bits, strings
  without zero bytes, and status 0 in a tunnel-connect response, whose wire form has
  no status.
\<close>

definition CmdPacket_valid :: "CmdPacket \<Rightarrow> bool" where
  "CmdPacket_valid p =
     (RequestID p < 0x8000 \<and>
      (if CommandID p = CommandPing then
         (if IsRequest p
          then (case PingRequest p of None \<Rightarrow> False | Some b \<Rightarrow> nul_free (pingreq_Data b))
               \<and> no_bodies (p\<lparr>PingRequest := None\<rparr>)
          else (case PingResponse p of None \<Rightarrow> False | Some b \<Rightarrow> nul_free (pingresp_Data b))
               \<and> no_bodies (p\<lparr>PingResponse := None\<rparr>))
       else if CommandID p = CommandShell then
         (if IsRequest p
          then (case ShellRequest p of None \<Rightarrow> False | Some b \<Rightarrow> nul_free (shellreq_Name b))
               \<and> no_bodies (p\<lparr>ShellRequest := None\<rparr>)
          else ShellResponse p \<noteq> None \<and> no_bodies (p\<lparr>ShellResponse := None\<rparr>))
       else if CommandID p = CommandExec then
         (if IsRequest p
          then (case ExecRequest p of None \<Rightarrow> False
                | Some b \<Rightarrow> nul_free (execreq_Name b) \<and> nul_free (execreq_Command b))
               \<and> no_bodies (p\<lparr>ExecRequest := None\<rparr>)
          else ExecResponse p \<noteq> None \<and> no_bodies (p\<lparr>ExecResponse := None\<rparr>))
       else if CommandID p = CommandDownload then
         (if IsRequest p
          then (case DownloadRequest p of None \<Rightarrow> False | Some b \<Rightarrow> nul_free (dlreq_Filename b))
               \<and> no_bodies (p\<lparr>DownloadRequest := None\<rparr>)
          else DownloadResponse p \<noteq> None \<and> no_bodies (p\<lparr>DownloadResponse := None\<rparr>))
       else if CommandID p = CommandUpload then
         (if IsRequest p
          then (case UploadRequest p of None \<Rightarrow> False | Some b \<Rightarrow> nul_free (upreq_Filename b))
               \<and> no_bodies (p\<lparr>UploadRequest := None\<rparr>)
          else UploadResponse p \<noteq> None \<and> no_bodies (p\<lparr>UploadResponse := None\<rparr>))
       else if CommandID p = CommandShutdown then
         (if IsRequest p
          then ShutdownRequest p \<noteq> None \<and> no_bodies (p\<lparr>ShutdownRequest := None\<rparr>)
          else ShutdownResponse p \<noteq> None \<and> no_bodies (p\<lparr>ShutdownResponse := None\<rparr>))
       else if CommandID p = CommandDelay then
         (if IsRequest p
          then DelayRequest p \<noteq> None \<and> no_bodies (p\<lparr>DelayRequest := None\<rparr>)
          else DelayResponse p \<noteq> None \<and> no_bodies (p\<lparr>DelayResponse := None\<rparr>))
       else if CommandID p = TunnelConnect then
         (if IsRequest p
          then (case TunnelConnectRequest p of None \<Rightarrow> False
                | Some b \<Rightarrow> nul_free (tcreq_Host b))
               \<and> no_bodies (p\<lparr>TunnelConnectRequest := None\<rparr>)
          else (case TunnelConnectResponse p of None \<Rightarrow> False | Some b \<Rightarrow> tcresp_Status b = 0)
               \<and> no_bodies (p\<lparr>TunnelConnectResponse := None\<rparr>))
       else if CommandID p = TunnelData then
         (if IsRequest p
          then TunnelDataRequest p \<noteq> None \<and> no_bodies (p\<lparr>TunnelDataRequest := None\<rparr>)
          else no_bodies p)
       else if CommandID p = TunnelClose then
         (if IsRequest p
          then (case TunnelCloseRequest p of None \<Rightarrow> False
                | Some b \<Rightarrow> nul_free (tclreq_Reason b))
               \<and> no_bodies (p\<lparr>TunnelCloseRequest := None\<rparr>)
          else no_bodies p)
       else if CommandID p = CommandError then
         (if IsRequest p
          then (case ErrorRequest p of None \<Rightarrow> False | Some b \<Rightarrow> nul_free (errreq_Reason b))
               \<and> no_bodies (p\<lparr>ErrorRequest := None\<rparr>)
          else (case ErrorResponse p of None \<Rightarrow> False | Some b \<Rightarrow> nul_free (errresp_Reason b))
               \<and> no_bodies (p\<lparr>ErrorResponse := None\<rparr>))
       else False))"

section \<open>Concrete values for the examples\<close>

text \<open>
  Stand-ins for the library primitives, small enough to evaluate: a 32-byte digest
  that depends on the length of its input and on its bytes in their order, a key
  stream that depends on key, nonce and position, and a key agreement that accepts
  65-byte points.
\<close>

definition toy_primitives :: primitives where
  "toy_primitives =
     \<lparr>sha3_256 = (\<lambda>x. of_nat (length x) # replicate 31 (foldl (\<lambda>h b. 3 * h + b) 0 x)),
      salsa20_keystream = (\<lambda>key nonce8 i. sum_list key + sum_list nonce8 + of_nat i),
      p256_NewPublicKey = (\<lambda>k. length k = 65),
      p256_ECDH = (\<lambda>priv pub. Some (replicate 32 (sum_list priv + sum_list pub)))\<rparr>"

definition enc_settings :: Settings where
  "enc_settings = \<lparr>PacketDelay = 1000000000, TransmitInstantOnData = True,
                   DoEncryption = True, PresharedSecret = []\<rparr>"

definition toy_encryptor :: Encryptor where
  "toy_encryptor =
     \<lparr>e_PresharedSecret = [], myPrivateKey = [0x01], myPublicKey = 0x04 # replicate 64 0x02,
      theirPublicKey = replicate 64 0x03, sharedSecret = replicate 32 0x07,
      myAuthenticator = replicate 32 0, theirAuthenticator = replicate 32 0,
      myWriteKey = replicate 32 0x0A, myMacKey = replicate 32 0x0B,
      theirWriteKey = replicate 32 0x0C, theirMacKey = replicate 32 0x0D, nonce = 0xFFF1\<rparr>"

text \<open>The peer of \<open>toy_encryptor\<close>: its keys for reading are the other's keys for writing.\<close>

definition toy_peer :: Encryptor where
  "toy_peer =
     toy_encryptor\<lparr>myPrivateKey := [0x05], myPublicKey := 0x04 # replicate 64 0x03,
                   theirPublicKey := replicate 64 0x02,
                   myWriteKey := replicate 32 0x0C, myMacKey := replicate 32 0x0D,
                   theirWriteKey := replicate 32 0x0A, theirMacKey := replicate 32 0x0B,
                   nonce := 0\<rparr>"

text \<open>
  An engine as \<open>crypto.NewEncryptor\<close> makes it, with the pre-shared secret \<open>hunter2\<close>,
  and the same engine once it has the peer's public key.
\<close>

definition fresh_encryptor :: Encryptor where
  "fresh_encryptor =
     (case crypto_NewEncryptor (bytes_of ''hunter2'') (Some ([0x01], 0x04 # replicate 64 0x02)) of
        Inr e \<Rightarrow> e | Inl _ \<Rightarrow> toy_encryptor)"

definition keyed_encryptor :: Encryptor where
  "keyed_encryptor =
     (case SetTheirPublicKey toy_primitives fresh_encryptor (replicate 64 0x03) of
        Inr e \<Rightarrow> e | Inl _ \<Rightarrow> toy_encryptor)"

definition blank_encryptor :: Encryptor where
  "blank_encryptor =
     \<lparr>e_PresharedSecret = [], myPrivateKey = [], myPublicKey = [],
      theirPublicKey = [], sharedSecret = replicate 32 0,
      myAuthenticator = replicate 32 0, theirAuthenticator = replicate 32 0,
      myWriteKey = replicate 32 0, myMacKey = replicate 32 0,
      theirWriteKey = replicate 32 0, theirMacKey = replicate 32 0, nonce = 0\<rparr>"

text \<open>An unencrypted MSG frame: packet id 1, session 1, sequence 0x0102, payload \<open>a\<close>.\<close>

definition sample_frame :: bytes where
  "sample_frame = [0x00, 0x01, 0x01, 0x00, 0x01, 0x01, 0x02, 0x00, 0x00, 0x61]"

definition idle_driver :: Driver where
  "idle_driver = \<lparr>drv_outgoingData = [], drv_isShutdown = False, drv_received = []\<rparr>"

text \<open>An established session at the edge of the sequence space, five bytes unacknowledged.\<close>

definition wrap_session :: Session where
  "wrap_session =
     \<lparr>ID = 0x0001, State = StateEstablished, TheirSeq = 0x0010, MySeq = 0xFFFE, Name = [],
      Options = 0, IsCommand = False, IsPing = False, Driver = idle_driver,
      OutgoingBuffer = [0x61, 0x62, 0x63, 0x64, 0x65],
      Encryptor = Some toy_encryptor, NewEncryptor = None, LastTransmit = None,
      MissedTransmissions = 0, sess_isShutdown = False\<rparr>"






text \<open>An established session with an empty buffer whose driver has one byte pending.\<close>

definition pending_session :: Session where
  "pending_session =
     wrap_session\<lparr>OutgoingBuffer := [], MySeq := 0x0100,
                  Driver := idle_driver\<lparr>drv_outgoingData := [0x41]\<rparr>\<rparr>"


text \<open>A tunnel-connect response with status 1, and a FIN whose reason holds a zero byte.\<close>

definition status_response :: CmdPacket where
  "status_response =
     zero_CmdPacket\<lparr>RequestID := 1, CommandID := TunnelConnect, IsRequest := False,
                    TunnelConnectResponse := Some \<lparr>tcresp_Status = 1, tcresp_TunnelID = 7\<rparr>\<rparr>"

definition nul_fin :: Packet where
  "nul_fin = CreateFIN 1 1 [0x61, 0x00, 0x62]"

text \<open>An operating system that refuses everything, with no callbacks.\<close>

definition plain_env :: cmd_env where
  "plain_env =
     \<lparr>env_CreateSession = None, env_windows = False, env_ReadFile = (\<lambda>_. None),
      env_WriteFile = (\<lambda>_ _. False), env_Dial = (\<lambda>_ _. False),
      env_OnShutdown = None, env_OnDelayChange = None\<rparr>"

text \<open>A complete command frame: length 4, request id 1, command kind \<open>0x1234\<close>.\<close>

definition unknown_kind_frame :: bytes where
  "unknown_kind_frame = [0x00, 0x00, 0x00, 0x04, 0x00, 0x01, 0x12, 0x34]"

section \<open>Sequence and acknowledgment arithmetic\<close>

lemma and_ffff [simp]: "(w :: u16) AND 0xFFFF = w"
proof -
  have e: "(0xFFFF :: u16) = - 1" by simp
  show ?thesis by (subst e) simp
qed

text \<open>
  C2.  An established session receives a MSG whose sequence number is the tracked peer
  sequence and whose acknowledgment stands for \<open>n = (Ack - MySeq) mod 65536\<close> bytes, with
  \<open>n\<close> at most the length of the outgoing buffer.  Then \<open>handleMSG\<close> returns, \<open>MySeq\<close>
  becomes \<open>(MySeq + n) mod 65536\<close>, and exactly the first \<open>n\<close> bytes leave the buffer.
\<close>

theorem handleMSG_ack_mod_65536:
  assumes "State s = StateEstablished" and "MSG pkt = Some m" and "msg_Seq m = TheirSeq s"
    and "int n = (uint (msg_Ack m) - uint (MySeq s)) mod 65536"
    and "n \<le> length (OutgoingBuffer s)"
  shows "\<exists>b s'. handleMSG cfg s pkt = Return (b, s')
           \<and> uint (MySeq s') = (uint (MySeq s) + int n) mod 65536
           \<and> OutgoingBuffer s' = drop n (OutgoingBuffer s)"
proof -
  have n: "unat (msg_Ack m - MySeq s) = n"
    using assms(4) by (simp add: uint_word_ariths unat_eq_nat_uint)
  have "(uint (MySeq s) + int n) mod 65536 = uint (msg_Ack m) mod 65536"
    using assms(4) by (simp add: mod_simps)
  also have "\<dots> = uint (msg_Ack m)"
    using uint_lt2p [of "msg_Ack m"] by simp
  finally have w: "(uint (MySeq s) + int n) mod 65536 = uint (msg_Ack m)" .
  have le: "unat (msg_Ack m - MySeq s) \<le> length (OutgoingBuffer s)"
    using n assms(5) by simp
  show ?thesis
  proof (cases "msg_Ack m - MySeq s = 0")
    case True
    then have "n = 0" "msg_Ack m = MySeq s" using n by simp_all
    then show ?thesis using assms(1-3) True w
      by (auto simp add: handleMSG_def Let_def)
  next
    case False
    then have "msg_Ack m - MySeq s > 0" by (simp add: word_greater_zero_iff)
    then show ?thesis using assms(1-3) n w le
      by (simp add: handleMSG_def Let_def)
  qed
qed

text \<open>
  The case of the claim: \<open>MySeq = 0xFFFE\<close>, an acknowledgment of \<open>0x0001\<close>, so three
  bytes across the wrap; \<open>MySeq\<close> becomes 1 and the buffer keeps its last two bytes.
\<close>

theorem handleMSG_ack_mod_65536_witness:
  "State wrap_session = StateEstablished
   \<and> MSG (CreateMSG 0 1 0x0010 0x0001 [0x41])
       = Some \<lparr>msg_Seq = 0x0010, msg_Ack = 0x0001, msg_Data = [0x41]\<rparr>
   \<and> TheirSeq wrap_session = 0x0010 \<and> MySeq wrap_session = 0xFFFE
   \<and> (3::nat) \<le> length (OutgoingBuffer wrap_session)
   \<and> (\<exists>b s'. handleMSG enc_settings wrap_session (CreateMSG 0 1 0x0010 0x0001 [0x41])
                 = Return (b, s')
          \<and> uint (MySeq s') = 1 \<and> OutgoingBuffer s' = [0x64, 0x65])"
  using handleMSG_ack_mod_65536 [of wrap_session "CreateMSG 0 1 0x0010 0x0001 [0x41]"
      "\<lparr>msg_Seq = 0x0010, msg_Ack = 0x0001, msg_Data = [0x41]\<rparr>" 3 enc_settings]
  by (simp add: wrap_session_def CreateMSG_def zero_Packet_def)

text \<open>
  C3.  An established session receives a MSG whose sequence number matches and whose
  acknowledgment stands for more bytes than the outgoing buffer holds.  Then
  \<open>handleMSG\<close> returns false with the session as it was: buffer, \<open>MySeq\<close>, \<open>TheirSeq\<close>,
  state and driver (nothing is delivered) are unchanged.
\<close>

theorem handleMSG_bad_ack_rejected:
  assumes "State s = StateEstablished" and "MSG pkt = Some m" and "msg_Seq m = TheirSeq s"
    and "unat (msg_Ack m - MySeq s) > length (OutgoingBuffer s)"
  shows "handleMSG cfg s pkt = Return (False, s)"
proof -
  from assms(4) have "\<not> unat (msg_Ack m - MySeq s) \<le> length (OutgoingBuffer s)"
    by simp
  with assms(1-3) show ?thesis
    by (simp add: handleMSG_def Let_def)
qed

text \<open>An acknowledgment of six bytes against a buffer of five.\<close>

theorem handleMSG_bad_ack_rejected_witness:
  "State wrap_session = StateEstablished
   \<and> MSG (CreateMSG 0 1 0x0010 0x0004 [0x41])
       = Some \<lparr>msg_Seq = 0x0010, msg_Ack = 0x0004, msg_Data = [0x41]\<rparr>
   \<and> TheirSeq wrap_session = 0x0010
   \<and> unat ((0x0004 :: u16) - MySeq wrap_session) > length (OutgoingBuffer wrap_session)
   \<and> handleMSG enc_settings wrap_session (CreateMSG 0 1 0x0010 0x0004 [0x41])
       = Return (False, wrap_session)"
  using handleMSG_bad_ack_rejected [of wrap_session "CreateMSG 0 1 0x0010 0x0004 [0x41]"
      "\<lparr>msg_Seq = 0x0010, msg_Ack = 0x0004, msg_Data = [0x41]\<rparr>" enc_settings]
  by (simp add: wrap_session_def CreateMSG_def zero_Packet_def)

section \<open>Discarded input\<close>

lemma poll_fields:
  "State (pollDriverForData s) = State s" "MySeq (pollDriverForData s) = MySeq s"
  "TheirSeq (pollDriverForData s) = TheirSeq s" "Encryptor (pollDriverForData s) = Encryptor s"
  "Options (pollDriverForData s) = Options s" "NewEncryptor (pollDriverForData s) = NewEncryptor s"
  "IsPing (pollDriverForData s) = IsPing s" "ID (pollDriverForData s) = ID s"
  by (simp_all add: pollDriverForData_def Kill_def Let_def split: prod.splits option.splits)

lemma poll_idle:
  assumes "drv_outgoingData (Driver s) = []"
    and "\<not> drv_isShutdown (Driver s) \<or> OutgoingBuffer s \<noteq> [] \<or> sess_isShutdown s"
  shows "pollDriverForData s = s"
  using assms by (auto simp add: pollDriverForData_def Driver_GetOutgoing_def Kill_def Let_def)

text \<open>
  What the poll of the driver does to a session, field by field: the driver hands
  over all its pending bytes, they go to the end of the outgoing buffer, and the
  session is shut down when the driver is done (shut down, nothing pending) and the
  buffer is empty.  Nothing else changes.
\<close>

lemma poll_session:
  "pollDriverForData s =
     s\<lparr>Driver := (Driver s)\<lparr>drv_outgoingData := []\<rparr>,
       OutgoingBuffer := OutgoingBuffer s @ drv_outgoingData (Driver s),
       sess_isShutdown := (sess_isShutdown s
          \<or> drv_isShutdown (Driver s) \<and> drv_outgoingData (Driver s) = []
            \<and> OutgoingBuffer s = [])\<rparr>"
  by (cases s, cases "Driver s")
    (auto simp add: pollDriverForData_def Driver_GetOutgoing_def Kill_def Driver_Close_def
      Let_def)

text \<open>
  C9, as the code has it.  \<open>DataIncoming\<close> polls the driver before it looks at the
  input.  With encryption active, input that fails the signature check, the
  decryption, or the parse of the decrypted bytes makes the call return false with
  the session exactly as that poll leaves it: state, \<open>MySeq\<close>, \<open>TheirSeq\<close> and
  encryptor are those of before the call, while the outgoing buffer has the driver's
  pending bytes appended, the driver has none left, and the shutdown flag is set when
  it was set before or the driver is shut down with nothing pending and the buffer
  is empty.  When the driver has nothing pending and the poll has nobody to kill,
  the whole session is unchanged.
\<close>

theorem DataIncoming_discard_after_poll:
  assumes "shouldEncrypt cfg s" and "Encryptor s = Some e"
    and "CheckSignature P e input = None
         \<or> (\<exists>v. CheckSignature P e input = Some v
                \<and> (Decrypt P e v = Inl ErrDataTooShort
                   \<or> (\<exists>d n err. Decrypt P e v = Inr (d, n) \<and> Parse d (Options s) = Inl err)))"
  shows "DataIncoming cfg P s input =
           Return (False,
             s\<lparr>Driver := (Driver s)\<lparr>drv_outgoingData := []\<rparr>,
               OutgoingBuffer := OutgoingBuffer s @ drv_outgoingData (Driver s),
               sess_isShutdown := (sess_isShutdown s
                  \<or> drv_isShutdown (Driver s) \<and> drv_outgoingData (Driver s) = []
                    \<and> OutgoingBuffer s = [])\<rparr>)
         \<and> DataIncoming cfg P s input = Return (False, pollDriverForData s)
         \<and> State (pollDriverForData s) = State s
         \<and> MySeq (pollDriverForData s) = MySeq s
         \<and> TheirSeq (pollDriverForData s) = TheirSeq s
         \<and> Encryptor (pollDriverForData s) = Encryptor s
         \<and> OutgoingBuffer (pollDriverForData s) = OutgoingBuffer s @ drv_outgoingData (Driver s)
         \<and> drv_outgoingData (Driver (pollDriverForData s)) = []
         \<and> sess_isShutdown (pollDriverForData s)
             = (sess_isShutdown s
                \<or> drv_isShutdown (Driver s) \<and> drv_outgoingData (Driver s) = []
                  \<and> OutgoingBuffer s = [])
         \<and> (drv_outgoingData (Driver s) = []
              \<and> (\<not> drv_isShutdown (Driver s) \<or> OutgoingBuffer s \<noteq> [] \<or> sess_isShutdown s)
            \<longrightarrow> DataIncoming cfg P s input = Return (False, s))"
proof -
  have se: "shouldEncrypt cfg (pollDriverForData s)"
    using assms(1) by (simp add: shouldEncrypt_def poll_fields)
  have d: "DataIncoming cfg P s input = Return (False, pollDriverForData s)"
    using assms(2,3) se
    by (auto simp add: DataIncoming_def dispatchIncoming_def Let_def poll_fields)
  have f: "OutgoingBuffer (pollDriverForData s) = OutgoingBuffer s @ drv_outgoingData (Driver s)"
    "drv_outgoingData (Driver (pollDriverForData s)) = []"
    "sess_isShutdown (pollDriverForData s)
       = (sess_isShutdown s
          \<or> drv_isShutdown (Driver s) \<and> drv_outgoingData (Driver s) = []
            \<and> OutgoingBuffer s = [])"
    by (simp_all add: poll_session)
  have i: "DataIncoming cfg P s input = Return (False, s)"
    if "drv_outgoingData (Driver s) = []
        \<and> (\<not> drv_isShutdown (Driver s) \<or> OutgoingBuffer s \<noteq> [] \<or> sess_isShutdown s)"
    using that d by (simp add: poll_idle)
  from d have x: "DataIncoming cfg P s input =
           Return (False,
             s\<lparr>Driver := (Driver s)\<lparr>drv_outgoingData := []\<rparr>,
               OutgoingBuffer := OutgoingBuffer s @ drv_outgoingData (Driver s),
               sess_isShutdown := (sess_isShutdown s
                  \<or> drv_isShutdown (Driver s) \<and> drv_outgoingData (Driver s) = []
                    \<and> OutgoingBuffer s = [])\<rparr>)"
    by (simp only: poll_session [symmetric])
  from x d f i poll_fields(1-4) [of s] show ?thesis
    by blast
qed

text \<open>
  Twelve zero bytes fail the signature check of the example engine; the session
  comes back with the driver's pending byte in its buffer.
\<close>

theorem DataIncoming_discard_after_poll_witness:
  "shouldEncrypt enc_settings pending_session
   \<and> Encryptor pending_session = Some toy_encryptor
   \<and> CheckSignature toy_primitives toy_encryptor [0, 0, 0, 0, 0, 0, 0, 0, 0, 0, 0, 0] = None
   \<and> DataIncoming enc_settings toy_primitives pending_session [0, 0, 0, 0, 0, 0, 0, 0, 0, 0, 0, 0]
       = Return (False, pollDriverForData pending_session)
   \<and> DataIncoming enc_settings toy_primitives pending_session [0, 0, 0, 0, 0, 0, 0, 0, 0, 0, 0, 0]
       = Return (False, pending_session\<lparr>Driver := idle_driver, OutgoingBuffer := [0x41]\<rparr>)
   \<and> OutgoingBuffer (pollDriverForData pending_session) = [0x41]
   \<and> drv_outgoingData (Driver (pollDriverForData pending_session)) = []
   \<and> \<not> sess_isShutdown (pollDriverForData pending_session)
   \<and> MySeq (pollDriverForData pending_session) = 0x0100"
  using DataIncoming_discard_after_poll [of enc_settings pending_session toy_encryptor
      toy_primitives "[0, 0, 0, 0, 0, 0, 0, 0, 0, 0, 0, 0]"]
  by (simp add: pollDriverForData_def Driver_GetOutgoing_def Let_def
      shouldEncrypt_def enc_settings_def pending_session_def wrap_session_def idle_driver_def
      CheckSignature_def HeaderLength_def SignatureLength_def toy_primitives_def
      toy_encryptor_def)

text \<open>
  C9 as stated fails: the empty input fails the signature check, the call returns
  false, and the outgoing buffer, empty before the call, holds the driver's byte
  after it.
\<close>

theorem DataIncoming_discard_counterexample:
  "shouldEncrypt enc_settings pending_session
   \<and> CheckSignature toy_primitives toy_encryptor [] = None
   \<and> OutgoingBuffer pending_session = []
   \<and> DataIncoming enc_settings toy_primitives pending_session []
       = Return (False, pending_session\<lparr>Driver := idle_driver, OutgoingBuffer := [0x41]\<rparr>)"
  by (simp add: DataIncoming_def pollDriverForData_def Driver_GetOutgoing_def Let_def
      shouldEncrypt_def enc_settings_def pending_session_def wrap_session_def idle_driver_def
      CheckSignature_def HeaderLength_def SignatureLength_def)

section \<open>Truncated ENC bodies\<close>

lemma ENC_type_simps:
  "PacketTypeENC \<noteq> PacketTypeSYN" "PacketTypeENC \<noteq> PacketTypeMSG"
  "PacketTypeENC \<noteq> PacketTypeFIN" "PacketTypeENC \<noteq> PacketTypePING"
  by (simp_all add: PacketTypeENC_def PacketTypeSYN_def PacketTypeMSG_def PacketTypeFIN_def
      PacketTypePING_def)

text \<open>
  C10.  The input is a 5-byte header of type ENC, two bytes of subtype (key-init or
  auth), two bytes of flags and a body of at least one byte but fewer than the 64
  (key-init) or 32 (auth) the subtype asks for.  \<open>Parse\<close> succeeds, and the public key
  or the authenticator of the ENC body is the body followed by zeros.
\<close>

theorem Parse_truncated_ENC_accepted:
  assumes "input = [a, b, PacketTypeENC, c, d, t1, t2, f1, f2] @ body"
    and "body \<noteq> []"
    and "(u16_of t1 t2 = EncSubtypeInit \<and> length body < 64)
         \<or> (u16_of t1 t2 = EncSubtypeAuth \<and> length body < 32)"
  shows "Parse input options =
           Inr \<lparr>PacketID = u16_of a b, PacketType = PacketTypeENC, SessionID = u16_of c d,
                SYN = None, MSG = None, FIN = None, PING = None,
                ENC = Some \<lparr>enc_Subtype = u16_of t1 t2, enc_Flags = u16_of f1 f2,
                            enc_PublicKey =
                              (if u16_of t1 t2 = EncSubtypeInit
                               then body @ replicate (64 - length body) 0 else replicate 64 0),
                            enc_Authenticator =
                              (if u16_of t1 t2 = EncSubtypeAuth
                               then body @ replicate (32 - length body) 0
                               else replicate 32 0)\<rparr>\<rparr>"
  using assms
  by (auto simp add: Parse_def parse_ENC_def read_array_def zero_Packet_def zero_ENC_def
      ENC_type_simps MaxPacketSize_def Let_def EncSubtypeInit_def EncSubtypeAuth_def)

text \<open>A key-init frame that carries two of its 64 key bytes.\<close>

theorem Parse_truncated_ENC_accepted_witness:
  "[0x12, 0x34, 0x03, 0x00, 0x01, 0x00, 0x00, 0x00, 0x00, 0xAA, 0xBB]
     = [0x12, 0x34, PacketTypeENC, 0x00, 0x01, 0x00, 0x00, 0x00, 0x00] @ [0xAA, 0xBB]
   \<and> [0xAA, 0xBB :: byte] \<noteq> []
   \<and> u16_of 0x00 0x00 = EncSubtypeInit \<and> length [0xAA, 0xBB :: byte] < 64
   \<and> Parse [0x12, 0x34, 0x03, 0x00, 0x01, 0x00, 0x00, 0x00, 0x00, 0xAA, 0xBB] 0 =
       Inr \<lparr>PacketID = 0x1234, PacketType = 0x03, SessionID = 0x0001,
            SYN = None, MSG = None, FIN = None, PING = None,
            ENC = Some \<lparr>enc_Subtype = 0, enc_Flags = 0,
                        enc_PublicKey = [0xAA, 0xBB] @ replicate 62 0,
                        enc_Authenticator = replicate 32 0\<rparr>\<rparr>"
  using Parse_truncated_ENC_accepted [of
      "[0x12, 0x34, 0x03, 0x00, 0x01, 0x00, 0x00, 0x00, 0x00, 0xAA, 0xBB]"
      "0x12" "0x34" "0x00" "0x01" "0x00" "0x00" "0x00" "0x00" "[0xAA, 0xBB]" 0]
  by (simp add: PacketTypeENC_def EncSubtypeInit_def EncSubtypeAuth_def u16_of_def)

section \<open>A-record reassembly\<close>


lemma set_insert_everywhere:
  "set (insert_everywhere x ys) = {zs. \<exists>as bs. ys = as @ bs \<and> zs = as @ x # bs}"
proof (induction ys)
  case Nil
  then show ?case by simp
next
  case (Cons y ys)
  show ?case
  proof (rule set_eqI, rule iffI)
    fix zs
    assume "zs \<in> set (insert_everywhere x (y # ys))"
    then consider "zs = x # y # ys" | t where "t \<in> set (insert_everywhere x ys)" "zs = y # t"
      by auto
    then show "zs \<in> {zs. \<exists>as bs. y # ys = as @ bs \<and> zs = as @ x # bs}"
    proof cases
      case 1
      then have "y # ys = [] @ (y # ys) \<and> zs = [] @ x # (y # ys)" by simp
      then show ?thesis by blast
    next
      case 2
      then obtain as bs where "ys = as @ bs" "t = as @ x # bs"
        using Cons.IH by auto
      then have "y # ys = (y # as) @ bs \<and> zs = (y # as) @ x # bs"
        using 2 by simp
      then show ?thesis by blast
    qed
  next
    fix zs
    assume "zs \<in> {zs. \<exists>as bs. y # ys = as @ bs \<and> zs = as @ x # bs}"
    then obtain as bs where ab: "y # ys = as @ bs" "zs = as @ x # bs" by auto
    show "zs \<in> set (insert_everywhere x (y # ys))"
    proof (cases as)
      case Nil
      then have "zs = x # y # ys" using ab by simp
      then show ?thesis by simp
    next
      case (Cons a as')
      then have "ys = as' @ bs" "a = y" using ab by simp_all
      then have "as' @ x # bs \<in> set (insert_everywhere x ys)"
        using Cons.IH by auto
      then show ?thesis using ab Cons \<open>a = y\<close> by simp
    qed
  qed
qed

lemma set_orderings: "set (orderings xs) = {ys. mset ys = mset xs}"
proof (induction xs)
  case Nil
  then show ?case by simp
next
  case (Cons x xs)
  show ?case
  proof (rule set_eqI, rule iffI)
    fix zs
    assume "zs \<in> set (orderings (x # xs))"
    then obtain t where "t \<in> set (orderings xs)" "zs \<in> set (insert_everywhere x t)"
      by auto
    then show "zs \<in> {ys. mset ys = mset (x # xs)}"
      using Cons.IH by (auto simp add: set_insert_everywhere)
  next
    fix zs
    assume "zs \<in> {ys. mset ys = mset (x # xs)}"
    then have m: "mset zs = mset (x # xs)" by simp
    then have "x \<in> set zs"
      by (metis list.set_intros(1) set_mset_mset)
    then obtain as bs where z: "zs = as @ x # bs"
      by (auto dest: split_list)
    with m have "mset (as @ bs) = mset xs" by simp
    then have "as @ bs \<in> set (orderings xs)" using Cons.IH by simp
    moreover have "zs \<in> set (insert_everywhere x (as @ bs))"
      using z by (auto simp add: set_insert_everywhere)
    ultimately show "zs \<in> set (orderings (x # xs))" by auto
  qed
qed

text \<open>
  The orders that \<open>sortAnswers\<close> gives are the rearrangements of the answers whose
  first bytes ascend, all of them.
\<close>

lemma sortAnswers_orders:
  assumes "sortAnswers as = Inr orders"
  shows "set orders = {r. mset r = mset as \<and> sorted (map (\<lambda>a. hd (ans_Data a)) r)}"
  using assms by (auto simp add: sortAnswers_def set_orderings split: if_splits)



section \<open>Round trip of the two codecs\<close>

lemma u16_of_be16: "u16_of (ucast (drop_bit 8 w)) (ucast w) = (w :: u16)"
  unfolding u16_of_def
  by (rule bit_word_eqI) (auto simp add: bit_simps)

lemma u32_of_be32:
  "u32_of (ucast (drop_bit 24 w)) (ucast (drop_bit 16 w)) (ucast (drop_bit 8 w)) (ucast w)
     = (w :: u32)"
proof (rule bit_word_eqI)
  fix n assume "n < LENGTH(32)"
  then have n: "n < 32" by simp
  consider "n < 8" | "8 \<le> n" "n < 16" | "16 \<le> n" "n < 24" | "24 \<le> n" "n < 32"
    using n by linarith
  then show "bit (u32_of (ucast (drop_bit 24 w)) (ucast (drop_bit 16 w))
                   (ucast (drop_bit 8 w)) (ucast w)) n = bit w n"
    unfolding u32_of_def
    by cases (auto simp add: bit_simps)
qed

lemma length_be16 [simp]: "length (be16 w) = 2"
  by (simp add: be16_def)

lemma length_be32 [simp]: "length (be32 w) = 4"
  by (simp add: be32_def)

lemma read_u16_be16 [simp]: "read_u16 (be16 w @ r) = Some (w, r)"
  by (simp add: be16_def u16_of_be16)

lemma read_u32_be32 [simp]: "read_u32 (be32 w @ r) = Some (w, r)"
  by (simp add: be32_def u32_of_be32)

lemma readNTString_writeNTString [simp]:
  "nul_free s \<Longrightarrow> readNTString (writeNTString s @ r) = Some (s, r)"
  by (induction s) (auto simp add: writeNTString_def nul_free_def)

lemma read_u16_be16_end [simp]: "read_u16 (be16 w) = Some (w, [])"
  using read_u16_be16 [of w "[]"] by simp

lemma read_u32_be32_end [simp]: "read_u32 (be32 w) = Some (w, [])"
  using read_u32_be32 [of w "[]"] by simp

lemma readNTString_writeNTString_end [simp]:
  "nul_free s \<Longrightarrow> readNTString (writeNTString s) = Some (s, [])"
  using readNTString_writeNTString [of s "[]"] by simp

lemma PacketType_distinct:
  "PacketTypeSYN \<noteq> PacketTypeMSG" "PacketTypeSYN \<noteq> PacketTypeFIN"
  "PacketTypeSYN \<noteq> PacketTypePING" "PacketTypeSYN \<noteq> PacketTypeENC"
  "PacketTypeMSG \<noteq> PacketTypeFIN" "PacketTypeMSG \<noteq> PacketTypePING"
  "PacketTypeMSG \<noteq> PacketTypeENC" "PacketTypeFIN \<noteq> PacketTypePING"
  "PacketTypeFIN \<noteq> PacketTypeENC" "PacketTypePING \<noteq> PacketTypeENC"
  by (simp_all add: PacketTypeENC_def PacketTypeSYN_def PacketTypeMSG_def PacketTypeFIN_def
      PacketTypePING_def)

lemma Parse_header:
  assumes "length body + 5 \<le> MaxPacketSize"
  shows "Parse (be16 pid @ t # be16 sid @ body) opts =
     (let p = zero_Packet\<lparr>PacketID := pid, PacketType := t, SessionID := sid\<rparr> in
            if t = PacketTypeSYN then parse_SYN p body
            else if t = PacketTypeMSG then parse_MSG p body
            else if t = PacketTypeFIN then parse_FIN p body
            else if t = PacketTypePING then parse_PING p body
            else if t = PacketTypeENC then parse_ENC p body
            else Inl (ErrUnknownMessageType t))"
proof -
  show ?thesis
    using assms by (simp add: Parse_def)
qed

lemma Parse_ToBytes:
  assumes v: "Packet_valid p" and b: "ToBytes p opts = Inr bs" and l: "length bs \<le> 1024"
  shows "Parse bs opts' = Inr p"
proof (cases p)
  case (fields pid t sid syn msg fin ping enc)
  consider "t = PacketTypeSYN" | "t = PacketTypeMSG" | "t = PacketTypeFIN"
    | "t = PacketTypePING" | "t = PacketTypeENC"
    using v fields by (auto simp add: Packet_valid_def split: if_splits)
  then show ?thesis
  proof cases
    case 1
    then show ?thesis
      using v b l fields
      by (auto simp add: Packet_valid_def ToBytes_def Let_def Parse_header MaxPacketSize_def
          parse_SYN_def zero_Packet_def split: option.splits if_splits)
  next
    case 2
    then show ?thesis
      using v b l fields
      by (auto simp add: Packet_valid_def ToBytes_def Let_def Parse_header MaxPacketSize_def
          parse_MSG_def zero_Packet_def PacketType_distinct PacketType_distinct [symmetric] split: option.splits if_splits)
  next
    case 3
    then show ?thesis
      using v b l fields
      by (auto simp add: Packet_valid_def ToBytes_def Let_def Parse_header MaxPacketSize_def
          parse_FIN_def zero_Packet_def PacketType_distinct PacketType_distinct [symmetric] split: option.splits if_splits)
  next
    case 4
    then show ?thesis
      using v b l fields
      by (auto simp add: Packet_valid_def ToBytes_def Let_def Parse_header MaxPacketSize_def
          parse_PING_def zero_Packet_def PacketType_distinct PacketType_distinct [symmetric] split: option.splits if_splits)
  next
    case 5
    then show ?thesis
      using v b l fields
      by (auto simp add: Packet_valid_def ToBytes_def Let_def Parse_header MaxPacketSize_def
          parse_ENC_def zero_Packet_def zero_ENC_def read_array_def PacketType_distinct PacketType_distinct [symmetric]
          EncSubtypeInit_def EncSubtypeAuth_def
          split: option.splits if_splits)
  qed
qed


lemma mask_7fff: "(0x7FFF :: u16) = mask 15"
  by (simp add: mask_eq_exp_minus_1)

lemma bit_8000: "(0x8000 :: u16) = 2 ^ 15"
  by simp

lemma and_mask_and_exp: "(w AND mask m) AND 2 ^ m = (0 :: 'a :: len word)"
  by (rule bit_word_eqI) (auto simp add: bit_simps)

lemma or_exp_and_mask: "(w OR 2 ^ m) AND mask m = (w AND mask m :: 'a :: len word)"
  by (rule bit_word_eqI) (auto simp add: bit_simps)

lemma or_exp_and_exp: "(w OR 2 ^ m) AND 2 ^ m = (2 ^ m :: 'a :: len word)"
  by (rule bit_word_eqI) (auto simp add: bit_simps)

lemma packed_request:
  assumes "rid < (0x8000 :: u16)"
  shows "rid AND 0x7FFF = rid" and "rid AND 0x8000 = 0"
proof -
  have "rid < 2 ^ 15" using assms by simp
  then have m: "rid AND mask 15 = rid" by (rule less_mask_eq)
  then show "rid AND 0x7FFF = rid" unfolding mask_7fff .
  have "(rid AND mask 15) AND 2 ^ 15 = 0" by (rule and_mask_and_exp)
  then show "rid AND 0x8000 = 0" unfolding m bit_8000 .
qed

lemma packed_response:
  assumes "rid < (0x8000 :: u16)"
  shows "(rid OR 0x8000) AND 0x7FFF = rid" and "(rid OR 0x8000) AND 0x8000 \<noteq> 0"
proof -
  have "rid < 2 ^ 15" using assms by simp
  then have m: "rid AND mask 15 = rid" by (rule less_mask_eq)
  have "(rid OR 2 ^ 15) AND mask 15 = rid AND mask 15" by (rule or_exp_and_mask)
  then show "(rid OR 0x8000) AND 0x7FFF = rid" unfolding m mask_7fff bit_8000 .
  have "(rid OR 2 ^ 15) AND 2 ^ 15 = (2 ^ 15 :: u16)" by (rule or_exp_and_exp)
  then have "(rid OR 0x8000) AND 0x8000 = (0x8000 :: u16)" unfolding bit_8000 .
  then show "(rid OR 0x8000) AND 0x8000 \<noteq> 0" by simp
qed


lemma readNTString_cmd_writeNTString [simp]:
  "nul_free s \<Longrightarrow> readNTString_cmd (writeNTString s @ r) = (s, r)"
  by (induction s) (auto simp add: writeNTString_def nul_free_def)

lemma readNTString_cmd_writeNTString_end [simp]:
  "nul_free s \<Longrightarrow> readNTString_cmd (writeNTString s) = (s, [])"
  using readNTString_cmd_writeNTString [of s "[]"] by simp

lemma read_lenient_simps [simp]:
  "read_u16_lenient (be16 w @ r) = (w, r)" "read_u16_lenient (be16 w) = (w, [])"
  "read_u32_lenient (be32 v @ r) = (v, r)" "read_u32_lenient (be32 v) = (v, [])"
  "read_u16_lenient [] = (0, [])" "read_u32_lenient [] = (0, [])"
  by (simp_all add: read_u16_lenient_def read_u32_lenient_def)

lemmas Command_defs =
  CommandPing_def CommandShell_def CommandExec_def CommandDownload_def
  CommandUpload_def CommandShutdown_def CommandDelay_def TunnelConnect_def TunnelData_def
  TunnelClose_def CommandError_def

lemma parsePacket_ToBytes_CommandPing:
  assumes "CmdPacket_valid p" and "CommandID p = CommandPing"
  shows "parsePacket (drop 4 (ToBytes_cmd p)) = Inr p"
  using assms
  by (cases p)
    (auto simp add: CmdPacket_valid_def no_bodies_def ToBytes_cmd_def parsePacket_def Let_def
      zero_CmdPacket_def packed_request packed_response Command_defs
      split: option.splits if_splits)

lemma parsePacket_ToBytes_CommandShell:
  assumes "CmdPacket_valid p" and "CommandID p = CommandShell"
  shows "parsePacket (drop 4 (ToBytes_cmd p)) = Inr p"
  using assms
  by (cases p)
    (auto simp add: CmdPacket_valid_def no_bodies_def ToBytes_cmd_def parsePacket_def Let_def
      zero_CmdPacket_def packed_request packed_response Command_defs
      split: option.splits if_splits)

lemma parsePacket_ToBytes_CommandExec:
  assumes "CmdPacket_valid p" and "CommandID p = CommandExec"
  shows "parsePacket (drop 4 (ToBytes_cmd p)) = Inr p"
  using assms
  by (cases p)
    (auto simp add: CmdPacket_valid_def no_bodies_def ToBytes_cmd_def parsePacket_def Let_def
      zero_CmdPacket_def packed_request packed_response Command_defs
      split: option.splits if_splits)

lemma parsePacket_ToBytes_CommandDownload:
  assumes "CmdPacket_valid p" and "CommandID p = CommandDownload"
  shows "parsePacket (drop 4 (ToBytes_cmd p)) = Inr p"
  using assms
  by (cases p)
    (auto simp add: CmdPacket_valid_def no_bodies_def ToBytes_cmd_def parsePacket_def Let_def
      zero_CmdPacket_def packed_request packed_response Command_defs
      split: option.splits if_splits)

lemma parsePacket_ToBytes_CommandUpload:
  assumes "CmdPacket_valid p" and "CommandID p = CommandUpload"
  shows "parsePacket (drop 4 (ToBytes_cmd p)) = Inr p"
  using assms
  by (cases p)
    (auto simp add: CmdPacket_valid_def no_bodies_def ToBytes_cmd_def parsePacket_def Let_def
      zero_CmdPacket_def packed_request packed_response Command_defs
      split: option.splits if_splits)

lemma parsePacket_ToBytes_CommandShutdown:
  assumes "CmdPacket_valid p" and "CommandID p = CommandShutdown"
  shows "parsePacket (drop 4 (ToBytes_cmd p)) = Inr p"
  using assms
  by (cases p)
    (auto simp add: CmdPacket_valid_def no_bodies_def ToBytes_cmd_def parsePacket_def Let_def
      zero_CmdPacket_def packed_request packed_response Command_defs
      split: option.splits if_splits)

lemma parsePacket_ToBytes_CommandDelay:
  assumes "CmdPacket_valid p" and "CommandID p = CommandDelay"
  shows "parsePacket (drop 4 (ToBytes_cmd p)) = Inr p"
  using assms
  by (cases p)
    (auto simp add: CmdPacket_valid_def no_bodies_def ToBytes_cmd_def parsePacket_def Let_def
      zero_CmdPacket_def packed_request packed_response Command_defs
      split: option.splits if_splits)

lemma parsePacket_ToBytes_TunnelConnect:
  assumes "CmdPacket_valid p" and "CommandID p = TunnelConnect"
  shows "parsePacket (drop 4 (ToBytes_cmd p)) = Inr p"
  using assms
  by (cases p)
    (auto simp add: CmdPacket_valid_def no_bodies_def ToBytes_cmd_def parsePacket_def Let_def
      zero_CmdPacket_def packed_request packed_response Command_defs
      split: option.splits if_splits)

lemma parsePacket_ToBytes_TunnelData:
  assumes "CmdPacket_valid p" and "CommandID p = TunnelData"
  shows "parsePacket (drop 4 (ToBytes_cmd p)) = Inr p"
  using assms
  by (cases p)
    (auto simp add: CmdPacket_valid_def no_bodies_def ToBytes_cmd_def parsePacket_def Let_def
      zero_CmdPacket_def packed_request packed_response Command_defs
      split: option.splits if_splits)

lemma parsePacket_ToBytes_TunnelClose:
  assumes "CmdPacket_valid p" and "CommandID p = TunnelClose"
  shows "parsePacket (drop 4 (ToBytes_cmd p)) = Inr p"
  using assms
  by (cases p)
    (auto simp add: CmdPacket_valid_def no_bodies_def ToBytes_cmd_def parsePacket_def Let_def
      zero_CmdPacket_def packed_request packed_response Command_defs
      split: option.splits if_splits)

lemma parsePacket_ToBytes_CommandError:
  assumes "CmdPacket_valid p" and "CommandID p = CommandError"
  shows "parsePacket (drop 4 (ToBytes_cmd p)) = Inr p"
  using assms
  by (cases p)
    (auto simp add: CmdPacket_valid_def no_bodies_def ToBytes_cmd_def parsePacket_def Let_def
      zero_CmdPacket_def packed_request packed_response Command_defs
      split: option.splits if_splits)

lemma CmdPacket_valid_kind:
  assumes "CmdPacket_valid p"
  shows "CommandID p \<in> {CommandPing, CommandShell, CommandExec, CommandDownload, CommandUpload,
           CommandShutdown, CommandDelay, TunnelConnect, TunnelData, TunnelClose, CommandError}"
proof (rule ccontr)
  assume "\<not> ?thesis"
  then have "\<not> CmdPacket_valid p"
    by (simp add: CmdPacket_valid_def)
  with assms show False by simp
qed

lemma parsePacket_ToBytes_cmd:
  assumes "CmdPacket_valid p"
  shows "parsePacket (drop 4 (ToBytes_cmd p)) = Inr p"
  using CmdPacket_valid_kind [OF assms] assms
    parsePacket_ToBytes_CommandPing parsePacket_ToBytes_CommandShell
    parsePacket_ToBytes_CommandExec parsePacket_ToBytes_CommandDownload
    parsePacket_ToBytes_CommandUpload parsePacket_ToBytes_CommandShutdown
    parsePacket_ToBytes_CommandDelay parsePacket_ToBytes_TunnelConnect
    parsePacket_ToBytes_TunnelData parsePacket_ToBytes_TunnelClose
    parsePacket_ToBytes_CommandError
  by blast



lemma ToBytes_cmd_prefix:
  "ToBytes_cmd p = be32 (of_nat (length (drop 4 (ToBytes_cmd p)))) @ drop 4 (ToBytes_cmd p)"
  by (simp add: ToBytes_cmd_def Let_def)

lemma ToBytes_cmd_length: "8 \<le> length (ToBytes_cmd p)"
  by (simp add: ToBytes_cmd_def Let_def)

lemma be32_nth:
  "(be32 w @ d) ! 0 = ucast (drop_bit 24 w)" "(be32 w @ d) ! 1 = ucast (drop_bit 16 w)"
  "(be32 w @ d) ! 2 = ucast (drop_bit 8 w)" "(be32 w @ d) ! 3 = ucast w"
  by (simp_all add: be32_def)

lemma ReadPacket_frame:
  assumes l: "length d + 4 < 2 ^ 32" and p: "parsePacket d = Inr q"
  shows "ReadPacket (be32 (of_nat (length d)) @ d) = (Inr (Some q), [])"
proof -
  define len :: u32 where "len = of_nat (length d)"
  have u: "unat len = length d"
    using l by (simp add: len_def unat_of_nat)
  have u4: "unat (len + 4) = length d + 4"
    using l u by (simp add: unat_word_ariths)
  have no: "\<not> len + 4 < len"
    using u u4 by (simp add: word_less_nat_alt)
  have e: "(of_nat (length (be32 len @ d)) :: u32) = len + 4"
    by (simp add: len_def)
  have h: "u32_of ((be32 len @ d) ! 0) ((be32 len @ d) ! 1) ((be32 len @ d) ! 2)
             ((be32 len @ d) ! 3) = len"
    by (simp only: be32_nth u32_of_be32)
  have g: "4 \<le> length (be32 len @ d)" by simp
  have dr: "drop 4 (be32 len @ d) = d" by simp
  have "ReadPacket (be32 len @ d) = (Inr (Some q), [])"
    unfolding ReadPacket_def h Let_def e dr u
    using no p g by simp
  then show ?thesis by (simp add: len_def)
qed


lemmas PacketType_defs =
  PacketTypeSYN_def PacketTypeMSG_def PacketTypeFIN_def PacketTypeENC_def PacketTypePING_def

text \<open>
  C1, as the code has it.  An outer frame that is valid in the sense of
  \<open>Packet_valid\<close> and serializes to at most 1024 bytes is what \<open>Parse\<close> returns from its
  bytes; a command packet that is valid in the sense of \<open>CmdPacket_valid\<close> and
  serializes to fewer than \<open>2^32\<close> bytes is what \<open>ReadPacket\<close> returns from a buffer
  holding its bytes, and the buffer is empty afterwards.
\<close>

theorem codec_round_trip:
  "(Packet_valid p \<and> ToBytes p opts = Inr bs \<and> length bs \<le> 1024 \<longrightarrow> Parse bs opts' = Inr p)
   \<and> (CmdPacket_valid q \<and> length (ToBytes_cmd q) < 2 ^ 32
        \<longrightarrow> ReadPacket (ToBytes_cmd q) = (Inr (Some q), []))"
proof -
  have "ReadPacket (ToBytes_cmd q) = (Inr (Some q), [])"
    if v: "CmdPacket_valid q" and l: "length (ToBytes_cmd q) < 2 ^ 32"
  proof -
    let ?d = "drop 4 (ToBytes_cmd q)"
    have "length ?d + 4 = length (ToBytes_cmd q)"
      using ToBytes_cmd_length [of q] by simp
    then have "length ?d + 4 < 2 ^ 32" using l by simp
    then have "ReadPacket (be32 (of_nat (length ?d)) @ ?d) = (Inr (Some q), [])"
      using parsePacket_ToBytes_cmd [OF v] by (rule ReadPacket_frame)
    then show ?thesis
      using ToBytes_cmd_prefix [of q] by simp
  qed
  then show ?thesis
    using Parse_ToBytes [of p opts bs opts'] by blast
qed

lemma ToBytes_cmd_ping_response:
  "ToBytes_cmd (CreatePingResponse 5 [0x68, 0x69])
     = [0x00, 0x00, 0x00, 0x07, 0x80, 0x05, 0x00, 0x00, 0x68, 0x69, 0x00]"
  by (simp add: ToBytes_cmd_def CreatePingResponse_def zero_CmdPacket_def Let_def Command_defs
      be16_def be32_def writeNTString_def)

text \<open>A MSG frame with one byte of payload and a ping response with the data \<open>hi\<close>.\<close>

theorem codec_round_trip_witness:
  "Packet_valid (CreateMSG 1 1 0x0102 0 [0x61])
   \<and> ToBytes (CreateMSG 1 1 0x0102 0 [0x61]) 0 = Inr sample_frame
   \<and> length sample_frame \<le> 1024
   \<and> Parse sample_frame 0 = Inr (CreateMSG 1 1 0x0102 0 [0x61])
   \<and> CmdPacket_valid (CreatePingResponse 5 [0x68, 0x69])
   \<and> length (ToBytes_cmd (CreatePingResponse 5 [0x68, 0x69])) < 2 ^ 32
   \<and> ReadPacket [0x00, 0x00, 0x00, 0x07, 0x80, 0x05, 0x00, 0x00, 0x68, 0x69, 0x00]
       = (Inr (Some (CreatePingResponse 5 [0x68, 0x69])), [])"
proof -
  have a: "Packet_valid (CreateMSG 1 1 0x0102 0 [0x61])"
    by (simp add: Packet_valid_def CreateMSG_def zero_Packet_def PacketType_defs)
  have b: "ToBytes (CreateMSG 1 1 0x0102 0 [0x61]) 0 = Inr sample_frame"
    by (simp add: ToBytes_def CreateMSG_def zero_Packet_def PacketType_defs Let_def be16_def
        sample_frame_def)
  have c: "length sample_frame \<le> 1024" by (simp add: sample_frame_def)
  have d: "CmdPacket_valid (CreatePingResponse 5 [0x68, 0x69])"
    by (simp add: CmdPacket_valid_def CreatePingResponse_def zero_CmdPacket_def no_bodies_def
        nul_free_def Command_defs)
  have e: "length (ToBytes_cmd (CreatePingResponse 5 [0x68, 0x69])) < 2 ^ 32"
    by (simp add: ToBytes_cmd_ping_response)
  note t = codec_round_trip [of "CreateMSG 1 1 0x0102 0 [0x61]" 0 sample_frame 0
      "CreatePingResponse 5 [0x68, 0x69]"]
  from t a b c have f: "Parse sample_frame 0 = Inr (CreateMSG 1 1 0x0102 0 [0x61])"
    by blast
  from t d e have "ReadPacket (ToBytes_cmd (CreatePingResponse 5 [0x68, 0x69]))
       = (Inr (Some (CreatePingResponse 5 [0x68, 0x69])), [])"
    by blast
  then have g: "ReadPacket [0x00, 0x00, 0x00, 0x07, 0x80, 0x05, 0x00, 0x00, 0x68, 0x69, 0x00]
       = (Inr (Some (CreatePingResponse 5 [0x68, 0x69])), [])"
    by (simp only: ToBytes_cmd_ping_response)
  from a b c f d e g show ?thesis by blast
qed

text \<open>
  C1 as stated fails.  A tunnel-connect response with status 1 matches its kind and
  direction, and comes back with status 0, the status not being on the wire.  A FIN
  whose reason holds a zero byte comes back with the reason cut at that byte.
\<close>

theorem codec_round_trip_counterexample:
  "ReadPacket (ToBytes_cmd status_response) = (Inr (Some (CreateTunnelConnectResponse 1 7)), [])
   \<and> CreateTunnelConnectResponse 1 7 \<noteq> status_response
   \<and> ToBytes nul_fin 0 = Inr [0x00, 0x01, 0x02, 0x00, 0x01, 0x61, 0x00, 0x62, 0x00]
   \<and> Parse [0x00, 0x01, 0x02, 0x00, 0x01, 0x61, 0x00, 0x62, 0x00] 0 = Inr (CreateFIN 1 1 [0x61])
   \<and> CreateFIN 1 1 [0x61] \<noteq> nul_fin"
proof -
  have t: "ToBytes_cmd status_response
             = [0x00, 0x00, 0x00, 0x08, 0x80, 0x01, 0x10, 0x00, 0x00, 0x00, 0x00, 0x07]"
    by (simp add: ToBytes_cmd_def status_response_def zero_CmdPacket_def Let_def Command_defs
        be16_def be32_def)
  have r: "ReadPacket [0x00, 0x00, 0x00, 0x08, 0x80, 0x01, 0x10, 0x00, 0x00, 0x00, 0x00, 0x07]
             = (Inr (Some (CreateTunnelConnectResponse 1 7)), [])"
    by (simp add: ReadPacket_def parsePacket_def Let_def u32_of_def u16_of_def
        read_u16_lenient_def read_u32_lenient_def Command_defs CreateTunnelConnectResponse_def
        zero_CmdPacket_def)
  have n: "CreateTunnelConnectResponse 1 7 \<noteq> status_response"
    by (simp add: CreateTunnelConnectResponse_def status_response_def zero_CmdPacket_def)
  have f: "ToBytes nul_fin 0 = Inr [0x00, 0x01, 0x02, 0x00, 0x01, 0x61, 0x00, 0x62, 0x00]"
    by (simp add: ToBytes_def nul_fin_def CreateFIN_def zero_Packet_def PacketType_defs
        Let_def be16_def writeNTString_def)
  have g: "Parse [0x00, 0x01, 0x02, 0x00, 0x01, 0x61, 0x00, 0x62, 0x00] 0 = Inr (CreateFIN 1 1 [0x61])"
    by (simp add: Parse_def parse_FIN_def MaxPacketSize_def u16_of_def CreateFIN_def
        zero_Packet_def PacketType_defs Let_def)
  have m: "CreateFIN 1 1 [0x61] \<noteq> nul_fin"
    by (simp add: CreateFIN_def nul_fin_def zero_Packet_def)
  from t r n f g m show ?thesis by simp
qed


section \<open>Unknown command kinds\<close>

lemma ReadPacket_frame_error:
  assumes l: "length d + 4 < 2 ^ 32" and p: "parsePacket d = Inl err"
  shows "ReadPacket (be32 (of_nat (length d)) @ d) = (Inl err, [])"
proof -
  define len :: u32 where "len = of_nat (length d)"
  have u: "unat len = length d"
    using l by (simp add: len_def unat_of_nat)
  have u4: "unat (len + 4) = length d + 4"
    using l u by (simp add: unat_word_ariths)
  have no: "\<not> len + 4 < len"
    using u u4 by (simp add: word_less_nat_alt)
  have e: "(of_nat (length (be32 len @ d)) :: u32) = len + 4"
    by (simp add: len_def)
  have h: "u32_of ((be32 len @ d) ! 0) ((be32 len @ d) ! 1) ((be32 len @ d) ! 2)
             ((be32 len @ d) ! 3) = len"
    by (simp only: be32_nth u32_of_be32)
  have g: "4 \<le> length (be32 len @ d)" by simp
  have dr: "drop 4 (be32 len @ d) = d" by simp
  have "ReadPacket (be32 len @ d) = (Inl err, [])"
    unfolding ReadPacket_def h Let_def e dr u
    using no p g by simp
  then show ?thesis by (simp add: len_def)
qed

lemma parsePacket_unknown_kind:
  assumes "kind \<notin> {CommandPing, CommandShell, CommandExec, CommandDownload, CommandUpload,
             CommandShutdown, CommandDelay, TunnelConnect, TunnelData, TunnelClose, CommandError}"
  shows "parsePacket (be16 packed @ be16 kind @ body) = Inl (ErrUnknownCommand kind)"
  using assms by (simp add: parsePacket_def Let_def)

text \<open>
  C7 on the code.  A complete frame whose command kind is none of the eleven defined
  ones reaches a driver with an empty stream.  Decoding fails with the
  unknown-command error, as the claim says, and then \<open>processPackets\<close> leaves its
  loop: the driver is exactly as before the frame came in.  No response is queued
  and, the stream being empty behind the frame, nothing is printed; the branch of
  \<open>handlePacket\<close> that answers "Not implemented yet!" is never reached.
\<close>

theorem unknown_command_dropped:
  assumes kind: "kind \<notin> {CommandPing, CommandShell, CommandExec, CommandDownload, CommandUpload,
             CommandShutdown, CommandDelay, TunnelConnect, TunnelData, TunnelClose, CommandError}"
    and len: "length body + 8 < 2 ^ 32"
    and empty: "stream d = []"
    and frame: "frame = be32 (of_nat (length body + 4)) @ be16 packed @ be16 kind @ body"
  shows "ReadPacket frame = (Inl (ErrUnknownCommand kind), [])
       \<and> DataReceived_cmd env d frame = Inr d"
proof -
  let ?data = "be16 packed @ be16 kind @ body"
  have l: "length ?data + 4 < 2 ^ 32" using len by simp
  have f: "frame = be32 (of_nat (length ?data)) @ ?data"
    using frame by (simp add: add.commute)
  have r: "ReadPacket frame = (Inl (ErrUnknownCommand kind), [])"
    unfolding f
    using l parsePacket_unknown_kind [OF kind] by (rule ReadPacket_frame_error)
  have "processPackets env (d\<lparr>stream := frame\<rparr>) = Inr d"
    using r empty by simp
  then show ?thesis
    using r empty by (simp add: DataReceived_cmd_def)
qed

text \<open>The frame of kind \<open>0x1234\<close> at a fresh driver.\<close>

theorem unknown_command_dropped_witness:
  "(0x1234 :: u16) \<notin> {CommandPing, CommandShell, CommandExec, CommandDownload, CommandUpload,
             CommandShutdown, CommandDelay, TunnelConnect, TunnelData, TunnelClose, CommandError}
   \<and> length ([] :: bytes) + 8 < 2 ^ 32
   \<and> stream NewDriver = []
   \<and> unknown_kind_frame = be32 (of_nat (length ([] :: bytes) + 4)) @ be16 0x0001 @ be16 0x1234 @ []
   \<and> ReadPacket unknown_kind_frame = (Inl (ErrUnknownCommand 0x1234), [])
   \<and> DataReceived_cmd plain_env NewDriver unknown_kind_frame = Inr NewDriver
   \<and> outgoingData NewDriver = [] \<and> printed NewDriver = []"
proof -
  have k: "(0x1234 :: u16) \<notin> {CommandPing, CommandShell, CommandExec, CommandDownload,
             CommandUpload, CommandShutdown, CommandDelay, TunnelConnect, TunnelData, TunnelClose,
             CommandError}"
    by (simp add: Command_defs)
  have l: "length ([] :: bytes) + 8 < 2 ^ 32" by simp
  have e: "stream NewDriver = []" "outgoingData NewDriver = []" "printed NewDriver = []"
    by (simp_all add: NewDriver_def)
  have f: "unknown_kind_frame
             = be32 (of_nat (length ([] :: bytes) + 4)) @ be16 0x0001 @ be16 0x1234 @ []"
    by (simp add: unknown_kind_frame_def be32_def be16_def)
  note t = unknown_command_dropped [OF k l e(1) f, of plain_env]
  from t k l e f show ?thesis by blast
qed

section \<open>Crypto engine: encryption, signatures, key derivation\<close>

lemma XORKeyStream_length [simp]: "length (XORKeyStream P input n k) = length input"
  by (simp add: XORKeyStream_def)

lemma XORKeyStream_involution: "XORKeyStream P (XORKeyStream P input n k) n k = input"
  by (rule nth_equalityI) (simp_all add: XORKeyStream_def xor.assoc)

lemma Encrypt_nonce: "5 \<le> length d \<Longrightarrow> nonce (snd (Encrypt P tx d)) = nonce tx + 1"
  by (simp add: Encrypt_def GetNonce_def HeaderLength_def Let_def)

lemma Decrypt_Encrypt:
  assumes "5 \<le> length d" and "theirWriteKey rx = myWriteKey tx"
  shows "Decrypt P rx (fst (Encrypt P tx d)) = Inr (d, nonce tx)"
  using assms
  by (simp add: Encrypt_def Decrypt_def GetNonce_def HeaderLength_def Let_def nth_append
      u16_of_be16 XORKeyStream_involution)

lemma CheckSignature_parts:
  assumes "length h = 5" and "length sg = 6"
  shows "CheckSignature P rx (h @ sg @ b) =
           (if sg \<noteq> take 6 (sha3_256 P (theirMacKey rx @ h @ b)) then None else Some (h @ b))"
  using assms by (simp add: CheckSignature_def HeaderLength_def SignatureLength_def Let_def)

lemma Sign_parts:
  assumes "5 \<le> length d"
  shows "Sign P tx d = take 5 d @ take 6 (sha3_256 P (myMacKey tx @ d)) @ drop 5 d"
  using assms by (simp add: Sign_def HeaderLength_def SignatureLength_def Let_def)

lemma flip_bit_neq: "j < 8 \<Longrightarrow> flip_bit j (x :: byte) \<noteq> x"
proof
  assume j: "j < 8" and e: "flip_bit j x = x"
  have "bit (flip_bit j x) j = (\<not> bit x j)"
    using j by (simp add: bit_flip_bit_iff)
  with e show False by simp
qed

text \<open>
  C4, as the code has it.  For bytes of length at least 5 and a digest of 32 bytes:
  what one engine encrypts, an engine whose peer write key is the sender's write key
  decrypts to the original bytes, with the nonce read from the two bytes behind the
  header; what one engine signs, an engine whose peer MAC key is the signer's MAC key
  verifies, returning the unsigned bytes; verification with any MAC key fails exactly
  when the first six digest bytes for that key differ from the signer's; and with the
  signer's key, flipping any one bit of the six signature bytes makes it fail.
\<close>

theorem crypto_round_trip:
  assumes len: "5 \<le> length d" and digest: "\<forall>x. length (sha3_256 P x) = 32"
  shows "(theirWriteKey rx = myWriteKey tx
            \<longrightarrow> Decrypt P rx (fst (Encrypt P tx d)) = Inr (d, nonce tx))
       \<and> (theirMacKey rx = myMacKey tx \<longrightarrow> CheckSignature P rx (Sign P tx d) = Some d)
       \<and> (CheckSignature P rx (Sign P tx d) = None
            \<longleftrightarrow> take 6 (sha3_256 P (theirMacKey rx @ d)) \<noteq> take 6 (sha3_256 P (myMacKey tx @ d)))
       \<and> (theirMacKey rx = myMacKey tx \<longrightarrow>
            (\<forall>i < 6. \<forall>j < 8.
               CheckSignature P rx ((Sign P tx d)[5 + i := flip_bit j (Sign P tx d ! (5 + i))])
                 = None))"
proof -
  let ?h = "take 5 d" and ?b = "drop 5 d"
  let ?sg = "take 6 (sha3_256 P (myMacKey tx @ d))"
  have h: "length ?h = 5" using len by simp
  have sg: "length ?sg = 6" using digest by simp
  have S: "Sign P tx d = ?h @ ?sg @ ?b" using len by (rule Sign_parts)
  have C: "CheckSignature P rx (Sign P tx d) =
             (if ?sg \<noteq> take 6 (sha3_256 P (theirMacKey rx @ d)) then None else Some d)"
    unfolding S using CheckSignature_parts [OF h sg, of P rx ?b] by simp
  have flip: "CheckSignature P rx ((Sign P tx d)[5 + i := flip_bit j (Sign P tx d ! (5 + i))]) = None"
    if k: "theirMacKey rx = myMacKey tx" and i: "i < 6" and j: "j < 8" for i j
  proof -
    let ?sg' = "?sg[i := flip_bit j (?sg ! i)]"
    have u: "(Sign P tx d)[5 + i := flip_bit j (Sign P tx d ! (5 + i))] = ?h @ ?sg' @ ?b"
      unfolding S using h sg i by (simp add: list_update_append nth_append)
    have "?sg' ! i \<noteq> ?sg ! i" using sg i j by (simp add: flip_bit_neq)
    then have ne: "?sg' \<noteq> ?sg" by metis
    have sg': "length ?sg' = 6" using sg by simp
    show ?thesis
      unfolding u using CheckSignature_parts [OF h sg', of P rx ?b] ne k by simp
  qed
  show ?thesis
    using Decrypt_Encrypt [OF len, of rx tx P] C flip by auto
qed


lemma toy_digest: "\<forall>x. length (sha3_256 toy_primitives x) = 32"
  by (simp add: toy_primitives_def)

text \<open>The example engine and its peer on a ten-byte frame, the first signature bit flipped.\<close>

theorem crypto_round_trip_witness:
  "5 \<le> length sample_frame
   \<and> (\<forall>x. length (sha3_256 toy_primitives x) = 32)
   \<and> theirWriteKey toy_peer = myWriteKey toy_encryptor
   \<and> theirMacKey toy_peer = myMacKey toy_encryptor
   \<and> Decrypt toy_primitives toy_peer (fst (Encrypt toy_primitives toy_encryptor sample_frame))
       = Inr (sample_frame, 0xFFF1)
   \<and> CheckSignature toy_primitives toy_peer (Sign toy_primitives toy_encryptor sample_frame)
       = Some sample_frame
   \<and> CheckSignature toy_primitives toy_peer
        ((Sign toy_primitives toy_encryptor sample_frame)
           [5 := flip_bit 0 (Sign toy_primitives toy_encryptor sample_frame ! 5)]) = None"
proof -
  have l: "5 \<le> length sample_frame" by (simp add: sample_frame_def)
  have w: "theirWriteKey toy_peer = myWriteKey toy_encryptor"
    and m: "theirMacKey toy_peer = myMacKey toy_encryptor"
    and n: "nonce toy_encryptor = 0xFFF1"
    by (simp_all add: toy_peer_def toy_encryptor_def)
  note t = crypto_round_trip [OF l toy_digest, of toy_peer toy_encryptor]
  from t w n have d: "Decrypt toy_primitives toy_peer
      (fst (Encrypt toy_primitives toy_encryptor sample_frame)) = Inr (sample_frame, 0xFFF1)"
    by simp
  from t m have c: "CheckSignature toy_primitives toy_peer
      (Sign toy_primitives toy_encryptor sample_frame) = Some sample_frame"
    by blast
  from t m have "\<forall>i<6. \<forall>j<8. CheckSignature toy_primitives toy_peer
        ((Sign toy_primitives toy_encryptor sample_frame)
           [5 + i := flip_bit j (Sign toy_primitives toy_encryptor sample_frame ! (5 + i))]) = None"
    by blast
  then have "CheckSignature toy_primitives toy_peer
        ((Sign toy_primitives toy_encryptor sample_frame)
           [5 + 0 := flip_bit 0 (Sign toy_primitives toy_encryptor sample_frame ! (5 + 0))]) = None"
    by (rule allE [of _ 0], simp)
  then have f: "CheckSignature toy_primitives toy_peer
        ((Sign toy_primitives toy_encryptor sample_frame)
           [5 := flip_bit 0 (Sign toy_primitives toy_encryptor sample_frame ! 5)]) = None"
    by simp
  from l toy_digest w m d c f show ?thesis by blast
qed

lemma finite_bytes_length: "finite {k :: bytes. length k = n}"
  using finite_lists_length_eq [of "UNIV :: byte set" n] by simp

lemma card_bytes_length: "card {k :: bytes. length k = n} = 256 ^ n"
  using card_lists_length_eq [of "UNIV :: byte set" n] by (simp add: card_word)

lemma truncated_mac_collision:
  assumes digest: "\<forall>x. length (sha3_256 P x) = 32"
  shows "\<exists>k1 k2. length k1 = 32 \<and> length k2 = 32 \<and> k1 \<noteq> k2
           \<and> take 6 (sha3_256 P (k1 @ d)) = take 6 (sha3_256 P (k2 @ d))"
proof -
  let ?K = "{k :: bytes. length k = 32}" and ?T = "{t :: bytes. length t = 6}"
  let ?f = "\<lambda>k. take 6 (sha3_256 P (k @ d))"
  have sub: "?f ` ?K \<subseteq> ?T" using digest by auto
  have "card (?f ` ?K) \<le> card ?T"
    by (rule card_mono [OF finite_bytes_length sub])
  also have "\<dots> < card ?K"
    by (simp only: card_bytes_length) simp
  finally have "\<not> inj_on ?f ?K"
    using pigeonhole by blast
  then show ?thesis
    by (auto simp add: inj_on_def)
qed

text \<open>
  C4 as stated fails in its clause on a different MAC key: whatever the 32-byte digest
  is, two different 32-byte MAC keys give the same six signature bytes on the sample
  frame, so no digest makes verification fail for every pair of different keys.
\<close>

theorem different_mac_key_counterexample:
  "\<not> (\<exists>P. (\<forall>x. length (sha3_256 P x) = 32)
          \<and> (\<forall>tx rx. length (myMacKey tx) = 32 \<and> length (theirMacKey rx) = 32
                       \<and> theirMacKey rx \<noteq> myMacKey tx
                 \<longrightarrow> CheckSignature P rx (Sign P tx [0x00, 0x01, 0x01, 0x00, 0x01, 0x61]) = None))"
proof
  let ?d = "[0x00, 0x01, 0x01, 0x00, 0x01, 0x61] :: bytes"
  assume "\<exists>P. (\<forall>x. length (sha3_256 P x) = 32)
          \<and> (\<forall>tx rx. length (myMacKey tx) = 32 \<and> length (theirMacKey rx) = 32
                       \<and> theirMacKey rx \<noteq> myMacKey tx
                 \<longrightarrow> CheckSignature P rx (Sign P tx ?d) = None)"
  then obtain P where digest: "\<forall>x. length (sha3_256 P x) = 32"
    and all: "\<And>tx rx. length (myMacKey tx) = 32 \<Longrightarrow> length (theirMacKey rx) = 32
                \<Longrightarrow> theirMacKey rx \<noteq> myMacKey tx
                \<Longrightarrow> CheckSignature P rx (Sign P tx ?d) = None"
    by blast
  from truncated_mac_collision [OF digest, of ?d] obtain k1 k2 where
    k: "length k1 = 32" "length k2 = 32" "k1 \<noteq> k2"
       "take 6 (sha3_256 P (k1 @ ?d)) = take 6 (sha3_256 P (k2 @ ?d))"
    by blast
  let ?tx = "blank_encryptor\<lparr>myMacKey := k1\<rparr>" and ?rx = "blank_encryptor\<lparr>theirMacKey := k2\<rparr>"
  have none: "CheckSignature P ?rx (Sign P ?tx ?d) = None"
    using all [of ?tx ?rx] k by simp
  have h: "length (take 5 ?d) = 5" by simp
  have sg: "length (take 6 (sha3_256 P (k1 @ ?d))) = 6" using digest by simp
  have "Sign P ?tx ?d = take 5 ?d @ take 6 (sha3_256 P (k1 @ ?d)) @ drop 5 ?d"
    using Sign_parts [of ?d P ?tx] by simp
  then have "CheckSignature P ?rx (Sign P ?tx ?d) = Some ?d"
    using CheckSignature_parts [OF h sg, of P ?rx "drop 5 ?d"] k(4) by simp
  with none show False by simp
qed


lemma copy_into_same_length: "length src = length dst \<Longrightarrow> copy_into dst src = src"
  by (simp add: copy_into_def)

lemma makeKey_fields [simp]:
  "makeKey P (e\<lparr>myWriteKey := x\<rparr>) = makeKey P e"
  "makeKey P (e\<lparr>myMacKey := x\<rparr>) = makeKey P e"
  "makeKey P (e\<lparr>theirWriteKey := x\<rparr>) = makeKey P e"
  "makeKey P (e\<lparr>theirMacKey := x\<rparr>) = makeKey P e"
  by (simp_all add: makeKey_def fun_eq_iff)

lemma makeAuthenticator_fields [simp]:
  "makeAuthenticator P (e\<lparr>myWriteKey := x\<rparr>) = makeAuthenticator P e"
  "makeAuthenticator P (e\<lparr>myMacKey := x\<rparr>) = makeAuthenticator P e"
  "makeAuthenticator P (e\<lparr>theirWriteKey := x\<rparr>) = makeAuthenticator P e"
  "makeAuthenticator P (e\<lparr>theirMacKey := x\<rparr>) = makeAuthenticator P e"
  "makeAuthenticator P (e\<lparr>myAuthenticator := x\<rparr>) = makeAuthenticator P e"
  by (simp_all add: makeAuthenticator_def GetMyPublicKey_def fun_eq_iff)

lemma SetTheirPublicKey_Inr:
  assumes "SetTheirPublicKey P e k = Inr e'"
  obtains shared where
    "p256_ECDH P (myPrivateKey e) (if length k = 64 then 0x04 # k else k) = Some shared"
    "e' = (let e1 = e\<lparr>theirPublicKey := k,
                        sharedSecret := copy_into (sharedSecret e) (take 32 shared)\<rparr>;
                e5 = e1\<lparr>myWriteKey := makeKey P e1 ''client_write_key'' (myWriteKey e),
                        myMacKey := makeKey P e1 ''client_mac_key'' (myMacKey e),
                        theirWriteKey := makeKey P e1 ''server_write_key'' (theirWriteKey e),
                        theirMacKey := makeKey P e1 ''server_mac_key'' (theirMacKey e)\<rparr>
           in if e_PresharedSecret e \<noteq> [] then
                e5\<lparr>myAuthenticator := makeAuthenticator P e1 ''client'' (myAuthenticator e),
                   theirAuthenticator := makeAuthenticator P e1 ''server'' (theirAuthenticator e)\<rparr>
              else e5)"
  using assms
  by (simp add: SetTheirPublicKey_def Let_def split: if_splits option.splits)


text \<open>
  C5.  After \<open>SetTheirPublicKey\<close> has succeeded (the digest being 32 bytes, the engine's
  arrays 32 bytes each), each of the four keys is the SHA3-256 digest of the shared
  secret followed by its label, and with a pre-shared secret each authenticator is
  the digest of the role string, the shared secret, the local public key, the peer's
  public key and the pre-shared secret, in this order; without one the
  authenticators are left as they were.  The shared secret is the first 32 bytes of
  the key agreement between the local private key and the peer's point.  The local
  public key is the engine's own, without the leading \<open>0x04\<close> of an uncompressed
  65-byte point; the peer's key is the key as received; the pre-shared secret is the
  engine's own.  The call leaves the engine's key pair, pre-shared secret and nonce
  as they were.
\<close>

theorem key_material_derivation:
  assumes ok: "SetTheirPublicKey P e theirPubKey = Inr e'"
    and digest: "\<forall>x. length (sha3_256 P x) = 32"
    and arrays: "Encryptor_arrays e"
  shows "myWriteKey e' = sha3_256 P (sharedSecret e' @ bytes_of ''client_write_key'')
       \<and> myMacKey e' = sha3_256 P (sharedSecret e' @ bytes_of ''client_mac_key'')
       \<and> theirWriteKey e' = sha3_256 P (sharedSecret e' @ bytes_of ''server_write_key'')
       \<and> theirMacKey e' = sha3_256 P (sharedSecret e' @ bytes_of ''server_mac_key'')
       \<and> (let localKey = (if length (myPublicKey e) = 65 \<and> myPublicKey e ! 0 = 0x04
                            then tl (myPublicKey e) else myPublicKey e)
          in if e_PresharedSecret e = [] then
               myAuthenticator e' = myAuthenticator e
               \<and> theirAuthenticator e' = theirAuthenticator e
             else
               myAuthenticator e' =
                 sha3_256 P (bytes_of ''client'' @ sharedSecret e' @ localKey @
                             theirPubKey @ e_PresharedSecret e)
               \<and> theirAuthenticator e' =
                 sha3_256 P (bytes_of ''server'' @ sharedSecret e' @ localKey @
                             theirPubKey @ e_PresharedSecret e))
       \<and> (if e_PresharedSecret e' = [] then
             myAuthenticator e' = myAuthenticator e \<and> theirAuthenticator e' = theirAuthenticator e
           else
             myAuthenticator e' =
               sha3_256 P (bytes_of ''client'' @ sharedSecret e' @ GetMyPublicKey e' @
                           theirPublicKey e' @ e_PresharedSecret e')
             \<and> theirAuthenticator e' =
               sha3_256 P (bytes_of ''server'' @ sharedSecret e' @ GetMyPublicKey e' @
                           theirPublicKey e' @ e_PresharedSecret e'))
       \<and> theirPublicKey e' = theirPubKey
       \<and> myPublicKey e' = myPublicKey e
       \<and> myPrivateKey e' = myPrivateKey e
       \<and> e_PresharedSecret e' = e_PresharedSecret e
       \<and> nonce e' = nonce e
       \<and> (\<exists>shared.
             p256_ECDH P (myPrivateKey e)
               (if length theirPubKey = 64 then 0x04 # theirPubKey else theirPubKey) = Some shared
             \<and> sharedSecret e' = copy_into (sharedSecret e) (take 32 shared))"
proof -
  have c: "\<And>dst x. length dst = 32 \<Longrightarrow> copy_into dst (sha3_256 P x) = sha3_256 P x"
    using digest by (simp add: copy_into_same_length)
  from ok obtain shared where
    sh: "p256_ECDH P (myPrivateKey e)
           (if length theirPubKey = 64 then 0x04 # theirPubKey else theirPubKey) = Some shared"
    and e': "e' = (let e1 = e\<lparr>theirPublicKey := theirPubKey,
                        sharedSecret := copy_into (sharedSecret e) (take 32 shared)\<rparr>;
                e5 = e1\<lparr>myWriteKey := makeKey P e1 ''client_write_key'' (myWriteKey e),
                        myMacKey := makeKey P e1 ''client_mac_key'' (myMacKey e),
                        theirWriteKey := makeKey P e1 ''server_write_key'' (theirWriteKey e),
                        theirMacKey := makeKey P e1 ''server_mac_key'' (theirMacKey e)\<rparr>
           in if e_PresharedSecret e \<noteq> [] then
                e5\<lparr>myAuthenticator := makeAuthenticator P e1 ''client'' (myAuthenticator e),
                   theirAuthenticator := makeAuthenticator P e1 ''server'' (theirAuthenticator e)\<rparr>
              else e5)"
    by (rule SetTheirPublicKey_Inr)
  have ss: "sharedSecret e' = copy_into (sharedSecret e) (take 32 shared)"
    unfolding e' by (simp add: Let_def)
  have agreed: "\<exists>shared.
          p256_ECDH P (myPrivateKey e)
            (if length theirPubKey = 64 then 0x04 # theirPubKey else theirPubKey) = Some shared
          \<and> sharedSecret e' = copy_into (sharedSecret e) (take 32 shared)"
    using sh ss by blast
  have kept: "theirPublicKey e' = theirPubKey \<and> myPublicKey e' = myPublicKey e
       \<and> myPrivateKey e' = myPrivateKey e \<and> e_PresharedSecret e' = e_PresharedSecret e
       \<and> nonce e' = nonce e"
    unfolding e' by (simp add: Let_def)
  have keys: "myWriteKey e' = sha3_256 P (sharedSecret e' @ bytes_of ''client_write_key'')
       \<and> myMacKey e' = sha3_256 P (sharedSecret e' @ bytes_of ''client_mac_key'')
       \<and> theirWriteKey e' = sha3_256 P (sharedSecret e' @ bytes_of ''server_write_key'')
       \<and> theirMacKey e' = sha3_256 P (sharedSecret e' @ bytes_of ''server_mac_key'')"
    unfolding e' using arrays
    by (simp add: Let_def makeKey_def c Encryptor_arrays_def)
  have own: "let localKey = (if length (myPublicKey e) = 65 \<and> myPublicKey e ! 0 = 0x04
                            then tl (myPublicKey e) else myPublicKey e)
          in if e_PresharedSecret e = [] then
               myAuthenticator e' = myAuthenticator e
               \<and> theirAuthenticator e' = theirAuthenticator e
             else
               myAuthenticator e' =
                 sha3_256 P (bytes_of ''client'' @ sharedSecret e' @ localKey @
                             theirPubKey @ e_PresharedSecret e)
               \<and> theirAuthenticator e' =
                 sha3_256 P (bytes_of ''server'' @ sharedSecret e' @ localKey @
                             theirPubKey @ e_PresharedSecret e)"
    unfolding e' using arrays
    by (simp add: Let_def makeAuthenticator_def c Encryptor_arrays_def GetMyPublicKey_def)
  have auth: "if e_PresharedSecret e' = [] then
             myAuthenticator e' = myAuthenticator e \<and> theirAuthenticator e' = theirAuthenticator e
           else
             myAuthenticator e' =
               sha3_256 P (bytes_of ''client'' @ sharedSecret e' @ GetMyPublicKey e' @
                           theirPublicKey e' @ e_PresharedSecret e')
             \<and> theirAuthenticator e' =
               sha3_256 P (bytes_of ''server'' @ sharedSecret e' @ GetMyPublicKey e' @
                           theirPublicKey e' @ e_PresharedSecret e')"
    unfolding e' using arrays
    by (simp add: Let_def makeAuthenticator_def c Encryptor_arrays_def GetMyPublicKey_def)
  from keys own auth kept agreed show ?thesis
    by blast
qed

lemma fresh_encryptor_eq:
  "fresh_encryptor = \<lparr>e_PresharedSecret = bytes_of ''hunter2'', myPrivateKey = [0x01],
      myPublicKey = 0x04 # replicate 64 0x02,
               theirPublicKey = [], sharedSecret = replicate 32 0,
               myAuthenticator = replicate 32 0, theirAuthenticator = replicate 32 0,
               myWriteKey = replicate 32 0, myMacKey = replicate 32 0,
               theirWriteKey = replicate 32 0, theirMacKey = replicate 32 0, nonce = 0\<rparr>"
  by (simp add: fresh_encryptor_def crypto_NewEncryptor_def)



lemma keyed_ok:
  "SetTheirPublicKey toy_primitives fresh_encryptor (replicate 64 0x03) = Inr keyed_encryptor"
proof -
  have "p256_NewPublicKey toy_primitives (0x04 # replicate 64 0x03)"
    by (simp add: toy_primitives_def)
  moreover have "p256_ECDH toy_primitives (myPrivateKey fresh_encryptor) (0x04 # replicate 64 0x03) \<noteq> None"
    by (simp add: toy_primitives_def)
  ultimately have "\<exists>e. SetTheirPublicKey toy_primitives fresh_encryptor (replicate 64 0x03) = Inr e"
    by (auto simp add: SetTheirPublicKey_def Let_def)
  then show ?thesis
    by (auto simp add: keyed_encryptor_def)
qed

lemma SetTheirPublicKey_psk:
  "SetTheirPublicKey P e k = Inr e' \<Longrightarrow> e_PresharedSecret e' = e_PresharedSecret e"
  by (erule SetTheirPublicKey_Inr) (simp add: Let_def)

text \<open>
  A fresh engine with the secret \<open>hunter2\<close> and the public key \<open>04 02 ... 02\<close> receives
  the 64-byte public key \<open>03 ... 03\<close>: the local key enters the authenticators
  without its \<open>04\<close>, the peer's key as received.
\<close>

theorem key_material_derivation_witness:
  "SetTheirPublicKey toy_primitives fresh_encryptor (replicate 64 0x03) = Inr keyed_encryptor
   \<and> (\<forall>x. length (sha3_256 toy_primitives x) = 32)
   \<and> Encryptor_arrays fresh_encryptor
   \<and> e_PresharedSecret keyed_encryptor = bytes_of ''hunter2''
   \<and> sharedSecret keyed_encryptor = replicate 32 0xC5
   \<and> myWriteKey keyed_encryptor
       = sha3_256 toy_primitives (replicate 32 0xC5 @ bytes_of ''client_write_key'')
   \<and> myMacKey keyed_encryptor
       = sha3_256 toy_primitives (replicate 32 0xC5 @ bytes_of ''client_mac_key'')
   \<and> theirWriteKey keyed_encryptor
       = sha3_256 toy_primitives (replicate 32 0xC5 @ bytes_of ''server_write_key'')
   \<and> theirMacKey keyed_encryptor
       = sha3_256 toy_primitives (replicate 32 0xC5 @ bytes_of ''server_mac_key'')
   \<and> myAuthenticator keyed_encryptor
       = sha3_256 toy_primitives (bytes_of ''client'' @ replicate 32 0xC5 @
           replicate 64 0x02 @ replicate 64 0x03 @ bytes_of ''hunter2'')
   \<and> theirAuthenticator keyed_encryptor
       = sha3_256 toy_primitives (bytes_of ''server'' @ replicate 32 0xC5 @
           replicate 64 0x02 @ replicate 64 0x03 @ bytes_of ''hunter2'')
   \<and> myPublicKey keyed_encryptor = 0x04 # replicate 64 0x02
   \<and> theirPublicKey keyed_encryptor = replicate 64 0x03"
proof -
  have a: "Encryptor_arrays fresh_encryptor"
    by (simp add: Encryptor_arrays_def fresh_encryptor_eq)
  have n: "bytes_of ''hunter2'' \<noteq> []" by (simp add: bytes_of_def)
  have f: "e_PresharedSecret fresh_encryptor = bytes_of ''hunter2''"
    "myPublicKey fresh_encryptor = 0x04 # replicate 64 0x02"
    "myPrivateKey fresh_encryptor = [0x01]"
    "sharedSecret fresh_encryptor = replicate 32 0"
    by (simp_all add: fresh_encryptor_eq)
  have k: "p256_ECDH toy_primitives [0x01] (0x04 # replicate 64 0x03) = Some (replicate 32 0xC5)"
    by (simp add: toy_primitives_def sum_list_replicate)
  note t = key_material_derivation [OF keyed_ok toy_digest a, unfolded f]
  from t k have s: "sharedSecret keyed_encryptor = replicate 32 0xC5"
    by (auto simp add: copy_into_same_length)
  from t n have p: "e_PresharedSecret keyed_encryptor = bytes_of ''hunter2''"
    "myPublicKey keyed_encryptor = 0x04 # replicate 64 0x02"
    "theirPublicKey keyed_encryptor = replicate 64 0x03"
    by simp_all
  from t have w: "myWriteKey keyed_encryptor
       = sha3_256 toy_primitives (replicate 32 0xC5 @ bytes_of ''client_write_key'')"
    "myMacKey keyed_encryptor
       = sha3_256 toy_primitives (replicate 32 0xC5 @ bytes_of ''client_mac_key'')"
    "theirWriteKey keyed_encryptor
       = sha3_256 toy_primitives (replicate 32 0xC5 @ bytes_of ''server_write_key'')"
    "theirMacKey keyed_encryptor
       = sha3_256 toy_primitives (replicate 32 0xC5 @ bytes_of ''server_mac_key'')"
    unfolding s by blast+
  have l: "(if length (0x04 # replicate 64 (0x02 :: byte)) = 65
               \<and> (0x04 # replicate 64 (0x02 :: byte)) ! 0 = 0x04
            then tl (0x04 # replicate 64 (0x02 :: byte)) else 0x04 # replicate 64 0x02)
           = replicate 64 0x02"
    by simp
  from t n have u: "myAuthenticator keyed_encryptor
       = sha3_256 toy_primitives (bytes_of ''client'' @ replicate 32 0xC5 @
           replicate 64 0x02 @ replicate 64 0x03 @ bytes_of ''hunter2'')"
    "theirAuthenticator keyed_encryptor
       = sha3_256 toy_primitives (bytes_of ''server'' @ replicate 32 0xC5 @
           replicate 64 0x02 @ replicate 64 0x03 @ bytes_of ''hunter2'')"
    unfolding s l Let_def by (simp_all only: if_False simp_thms)
  from keyed_ok toy_digest a p s w u show ?thesis
    by blast
qed

section \<open>Renegotiation\<close>




















end
